theory Spec2Isabelle
  imports Main
begin

section \<open>JSON values and the JavaScript coercions the handlers rely on\<close>

text \<open>
  The repository holds two variants of one Express backend: \<^verbatim>\<open>api/index.js\<close>, which keeps
  its records in MongoDB collections (the names below start with \<open>mongo_\<close>), and a second
  file that keeps them in JavaScript objects in memory (the names start with \<open>mem_\<close>).

  Request fields that the handlers use as keys (\<open>phone\<close>, \<open>reference\<close>, \<open>type\<close>, \<open>email\<close>)
  are strings, and a field that is absent or empty is the empty string: both are falsy in
  JavaScript. \<open>req.body\<close> of a JSON route is an object. Counters and amounts are integers. A
  value that the code only coerces (\<open>upgrade\<close>, \<open>isUpgrade\<close>) or that arrives inside a webhook
  body is an arbitrary JSON value; \<open>None\<close> of type \<open>jsval\<close> is JavaScript's \<open>undefined\<close>.
  \<open>new Date()\<close> is the parameter \<open>now\<close>. Calls of the MongoDB driver are taken to succeed.
\<close>

datatype json =
    JNull
  | JBool bool
  | JNum int
  | JStr string
  | JArr "json list"
  | JObj "(string \<times> json) list"

type_synonym jsval = "json option"

fun truthy :: "jsval \<Rightarrow> bool" where
  "truthy None = False"
| "truthy (Some JNull) = False"
| "truthy (Some (JBool b)) = b"
| "truthy (Some (JNum n)) = (n \<noteq> 0)"
| "truthy (Some (JStr s)) = (s \<noteq> [])"
| "truthy (Some (JArr xs)) = True"
| "truthy (Some (JObj kvs)) = True"

text \<open>\<open>x || 0\<close> on a number: \<open>0\<close> is the only falsy integer.\<close>

definition or0 :: "int \<Rightarrow> int" where
  "or0 x = (if x \<noteq> 0 then x else 0)"

section \<open>The in-memory variant: objects used as dictionaries\<close>

text \<open>
  \<open>db.shares\<close>, \<open>db.payments\<close> and \<open>db.applications\<close> are plain objects, so \<open>store[key]\<close>
  finds the store's own property, and without one whatever \<open>Object.prototype\<close> has under
  that key: one of its standard members (the functions, and for \<open>__proto__\<close> the prototype
  itself), or a property that an earlier request has written there.

  The handlers write only five properties, with fixed values: \<open>friends\<close> and \<open>groups\<close> (on an
  object that is not a share record the sum \<open>undefined + 1\<close> is \<open>NaN\<close>, and \<open>Math.min\<close> keeps
  it), \<open>verified = true\<close>, \<open>verifiedAt\<close> (a date) and \<open>upgraded = true\<close>. \<open>extras\<close> records
  which of them an inherited object has received.
\<close>

definition standard_members :: "string list" where
  "standard_members =
     [''constructor'', ''__proto__'', ''hasOwnProperty'', ''isPrototypeOf'',
      ''propertyIsEnumerable'', ''toLocaleString'', ''toString'', ''valueOf'',
      ''__defineGetter__'', ''__defineSetter__'', ''__lookupGetter__'', ''__lookupSetter__'']"

record extras =
  x_friends :: bool
  x_groups :: bool
  x_verified :: bool
  x_verifiedAt :: "nat option"
  x_upgraded :: bool

definition no_extras :: extras where
  "no_extras = \<lparr>x_friends = False, x_groups = False, x_verified = False, x_verifiedAt = None,
                x_upgraded = False\<rparr>"

text \<open>
  What \<open>store[key]\<close> evaluates to: the store's own record; a standard member of
  \<open>Object.prototype\<close>; the date that a request has written to
  \<open>Object.prototype.verifiedAt\<close>; the primitive \<open>true\<close> (from \<open>Object.prototype.verified\<close> or
  \<open>.upgraded\<close>); \<open>NaN\<close> (from \<open>Object.prototype.friends\<close> or \<open>.groups\<close>); or \<open>undefined\<close>.
\<close>

datatype 'a looked =
    Own 'a
  | StdMember string
  | DateObject nat
  | PrimTrue
  | PrimNaN
  | Undefined

text \<open>
  \<open>inh k\<close> holds the extras of the object found under the key \<open>k\<close>: of the standard member
  \<open>k\<close> (of \<open>Object.prototype\<close> itself for \<open>__proto__\<close>), and for \<open>k = verifiedAt\<close> of the date
  at \<open>Object.prototype.verifiedAt\<close>.
\<close>

definition store_get :: "(string \<Rightarrow> extras) \<Rightarrow> (string \<rightharpoonup> 'a) \<Rightarrow> string \<Rightarrow> 'a looked" where
  "store_get inh store k =
     (case store k of
        Some v \<Rightarrow> Own v
      | None \<Rightarrow>
          if List.member standard_members k then StdMember k
          else if k = ''friends'' \<and> x_friends (inh ''__proto__'') then PrimNaN
          else if k = ''groups'' \<and> x_groups (inh ''__proto__'') then PrimNaN
          else if k = ''verified'' \<and> x_verified (inh ''__proto__'') then PrimTrue
          else if k = ''upgraded'' \<and> x_upgraded (inh ''__proto__'') then PrimTrue
          else if k = ''verifiedAt'' then
            (case x_verifiedAt (inh ''__proto__'') of Some t \<Rightarrow> DateObject t | None \<Rightarrow> Undefined)
          else Undefined)"

fun truthy_looked :: "'a looked \<Rightarrow> bool" where
  "truthy_looked (Own v) = True"
| "truthy_looked (StdMember k) = True"
| "truthy_looked (DateObject t) = True"
| "truthy_looked PrimTrue = True"
| "truthy_looked PrimNaN = False"
| "truthy_looked Undefined = False"

text \<open>
  How \<open>JSON.stringify\<close> renders an inherited value: a function is left out, \<open>Object.prototype\<close>
  shows the properties written to it, a date is its time, \<open>true\<close> is \<open>true\<close>.
\<close>

datatype shown = AsProto extras | AsDate nat | AsTrue

section \<open>Responses\<close>

datatype body =
    ErrorBody string
  | TextBody string
  | EmptyBody
  | ShownBody shown
  | SharesBody int int
  | SharedBody int int
  | ShareStatusBody int int string
  | EligibilityBody bool bool
  | EligibilitySharesBody bool bool int int
  | EligibilityShownBody bool bool shown
  | SuccessBody
  | VerifiedBody int json
  | NotCompletedBody string
  | InitBody string string string

type_synonym response = "nat \<times> body"

section \<open>The in-memory variant: records and the share ledger\<close>

record share_rec =
  friends :: int
  groups :: int

record payment_rec =
  pay_phone :: string
  pay_amount :: int
  pay_isUpgrade :: json
  pay_verified :: bool
  pay_createdAt :: nat
  pay_verifiedAt :: "nat option"

text \<open>
  The store: the own properties of the three objects, and in \<open>inherited\<close> the extras of the
  objects that lookups find on \<open>Object.prototype\<close>. No store has an own key \<open>__proto__\<close>: an
  assignment to it would set the store's prototype, and no handler reaches one.
\<close>

record mem_db =
  shares :: "string \<rightharpoonup> share_rec"
  payments :: "string \<rightharpoonup> payment_rec"
  applications :: "string \<rightharpoonup> (string \<rightharpoonup> json)"
  inherited :: "string \<Rightarrow> extras"

definition mem_init :: mem_db where
  "mem_init = \<lparr>shares = Map.empty, payments = Map.empty, applications = Map.empty,
               inherited = (\<lambda>k. no_extras)\<rparr>"

text \<open>\<open>db.shares[phone] || { friends: 0, groups: 0 }\<close>\<close>

definition mem_userShares :: "mem_db \<Rightarrow> string \<Rightarrow> share_rec looked" where
  "mem_userShares db phone =
     (let found = store_get (inherited db) (shares db) phone in
      if truthy_looked found then found else Own \<lparr>friends = 0, groups = 0\<rparr>)"

text \<open>
  \<open>db.shares[phone].friends = Math.min(db.shares[phone].friends + 1, 10)\<close>, and the same
  for \<open>groups\<close> with 2. On an inherited object the value written is \<open>NaN\<close>; on the primitive
  \<open>true\<close> the write is dropped.
\<close>

definition bump_friends :: "string \<Rightarrow> mem_db \<Rightarrow> mem_db" where
  "bump_friends phone db =
     (case store_get (inherited db) (shares db) phone of
        Own r \<Rightarrow> db\<lparr>shares := (shares db)(phone \<mapsto> r\<lparr>friends := min (friends r + 1) 10\<rparr>)\<rparr>
      | StdMember k \<Rightarrow>
          db\<lparr>inherited := (inherited db)(k := (inherited db k)\<lparr>x_friends := True\<rparr>)\<rparr>
      | DateObject t \<Rightarrow>
          db\<lparr>inherited := (inherited db)(''verifiedAt'' :=
                 (inherited db ''verifiedAt'')\<lparr>x_friends := True\<rparr>)\<rparr>
      | PrimTrue \<Rightarrow> db
      | PrimNaN \<Rightarrow> db
      | Undefined \<Rightarrow> db)"

definition bump_groups :: "string \<Rightarrow> mem_db \<Rightarrow> mem_db" where
  "bump_groups phone db =
     (case store_get (inherited db) (shares db) phone of
        Own r \<Rightarrow> db\<lparr>shares := (shares db)(phone \<mapsto> r\<lparr>groups := min (groups r + 1) 2\<rparr>)\<rparr>
      | StdMember k \<Rightarrow>
          db\<lparr>inherited := (inherited db)(k := (inherited db k)\<lparr>x_groups := True\<rparr>)\<rparr>
      | DateObject t \<Rightarrow>
          db\<lparr>inherited := (inherited db)(''verifiedAt'' :=
                 (inherited db ''verifiedAt'')\<lparr>x_groups := True\<rparr>)\<rparr>
      | PrimTrue \<Rightarrow> db
      | PrimNaN \<Rightarrow> db
      | Undefined \<Rightarrow> db)"

text \<open>\<open>res.json(db.shares[phone])\<close>: for a function nothing is serialised and the body is empty.\<close>

definition share_reply :: "mem_db \<Rightarrow> string \<Rightarrow> body" where
  "share_reply db phone =
     (case store_get (inherited db) (shares db) phone of
        Own r \<Rightarrow> SharesBody (friends r) (groups r)
      | StdMember k \<Rightarrow>
          if k = ''__proto__'' then ShownBody (AsProto (inherited db ''__proto__'')) else EmptyBody
      | DateObject t \<Rightarrow> ShownBody (AsDate t)
      | PrimTrue \<Rightarrow> ShownBody AsTrue
      | PrimNaN \<Rightarrow> EmptyBody
      | Undefined \<Rightarrow> EmptyBody)"

text \<open>\<open>POST /api/share\<close>, in memory.\<close>

definition mem_share :: "string \<Rightarrow> string \<Rightarrow> mem_db \<Rightarrow> mem_db \<times> response" where
  "mem_share phone type db =
     (if phone = [] \<or> type = [] then (db, (400, ErrorBody ''Phone and type required''))
      else
        let db1 = (if truthy_looked (store_get (inherited db) (shares db) phone) then db
                   else db\<lparr>shares := (shares db)(phone \<mapsto> \<lparr>friends = 0, groups = 0\<rparr>)\<rparr>);
            db2 = (if type = ''friend'' then bump_friends phone db1
                   else if type = ''group'' then bump_groups phone db1
                   else db1)
        in (db2, (200, share_reply db2 phone)))"

section \<open>The persistent variant: collections and the share ledger\<close>

record share_doc =
  sd_phone :: string
  sd_friends :: int
  sd_groups :: int
  sd_updated_at :: nat

record payment_doc =
  pd_phone :: json
  pd_reference :: json
  pd_status :: string
  pd_upgrade :: bool
  pd_updatedAt :: nat

record mongo_db =
  sharesCol :: "share_doc list"
  paymentsCol :: "payment_doc list"
  applicationsCol :: "(string \<rightharpoonup> json) list"

definition mongo_init :: mongo_db where
  "mongo_init = \<lparr>sharesCol = [], paymentsCol = [], applicationsCol = []\<rparr>"

text \<open>
  \<open>collection.findOne(filter)\<close> is \<^const>\<open>find\<close> on the list of documents.
  \<open>collection.updateOne(filter, {$set: ...}, {upsert: true})\<close> changes the first document
  that matches, and inserts a new one when none does.
\<close>

fun updateOne :: "('d \<Rightarrow> bool) \<Rightarrow> ('d \<Rightarrow> 'd) \<Rightarrow> 'd \<Rightarrow> 'd list \<Rightarrow> 'd list" where
  "updateOne P f ins [] = [ins]"
| "updateOne P f ins (d # ds) = (if P d then f d # ds else d # updateOne P f ins ds)"

text \<open>The \<open>friends\<close> and \<open>groups\<close> that a handler reads for a phone, \<open>0/0\<close> without a document.\<close>

definition mongo_findShares :: "mongo_db \<Rightarrow> string \<Rightarrow> int \<times> int" where
  "mongo_findShares db phone =
     (case find (\<lambda>d. sd_phone d = phone) (sharesCol db) of
        Some d \<Rightarrow> (sd_friends d, sd_groups d)
      | None \<Rightarrow> (0, 0))"

text \<open>\<open>POST /api/share\<close>, persistent.\<close>

definition mongo_share :: "nat \<Rightarrow> string \<Rightarrow> string \<Rightarrow> mongo_db \<Rightarrow> mongo_db \<times> response" where
  "mongo_share now phone type db =
     (if phone = [] \<or> \<not> List.member [''friend'', ''group''] type
      then (db, (400, ErrorBody ''Invalid''))
      else
        let (f0, g0) = mongo_findShares db phone;
            f1 = (if type = ''friend'' then min (or0 f0 + 1) 10 else f0);
            g1 = (if type = ''group'' then min (or0 g0 + 1) 2 else g0)
        in (db\<lparr>sharesCol :=
                 updateOne (\<lambda>d. sd_phone d = phone)
                   (\<lambda>d. d\<lparr>sd_friends := f1, sd_groups := g1, sd_updated_at := now\<rparr>)
                   \<lparr>sd_phone = phone, sd_friends = f1, sd_groups = g1, sd_updated_at = now\<rparr>
                   (sharesCol db)\<rparr>,
            (200, SharedBody f1 g1)))"

section \<open>The in-memory variant: eligibility, application, payments\<close>

text \<open>
  \<open>X.verified\<close> on what a lookup in \<open>db.payments\<close> gave: a function, a date, \<open>true\<close> and \<open>NaN\<close>
  have no such property of their own beyond the extras, and inherit it from
  \<open>Object.prototype\<close>.
\<close>

fun verified_of :: "(string \<Rightarrow> extras) \<Rightarrow> payment_rec looked \<Rightarrow> bool" where
  "verified_of inh (Own p) = pay_verified p"
| "verified_of inh (StdMember k) = (x_verified (inh k) \<or> x_verified (inh ''__proto__''))"
| "verified_of inh (DateObject t) = (x_verified (inh ''verifiedAt'') \<or> x_verified (inh ''__proto__''))"
| "verified_of inh PrimTrue = x_verified (inh ''__proto__'')"
| "verified_of inh PrimNaN = x_verified (inh ''__proto__'')"
| "verified_of inh Undefined = False"

record shareStatus =
  canAccessForm :: bool
  statusShares :: "share_rec looked"

text \<open>
  The middleware \<open>verifyWhatsAppShares\<close>: it answers 400 itself, or attaches
  \<open>req.shareStatus\<close> and calls the route. The phone is \<open>req.body.phone || req.query.phone\<close>.
  \<open>userShares.friends >= 10\<close> is false on anything but a share record.
\<close>

definition verifyWhatsAppShares :: "mem_db \<Rightarrow> string \<Rightarrow> string \<Rightarrow> response + shareStatus" where
  "verifyWhatsAppShares db body_phone query_phone =
     (let phone = (if body_phone \<noteq> [] then body_phone else query_phone) in
      if phone = [] then Inl (400, ErrorBody ''Phone number required'')
      else
        let userShares = mem_userShares db phone
        in Inr \<lparr>canAccessForm = (case userShares of
                                   Own r \<Rightarrow> 10 \<le> friends r \<and> 2 \<le> groups r
                                 | StdMember k \<Rightarrow> False
                                 | DateObject t \<Rightarrow> False
                                 | PrimTrue \<Rightarrow> False
                                 | PrimNaN \<Rightarrow> False
                                 | Undefined \<Rightarrow> False),
                statusShares = userShares\<rparr>)"

text \<open>
  \<open>GET /api/eligibility\<close>, in memory. \<open>body_phone\<close> is \<open>req.body.phone\<close>, which the middleware
  reads first (a GET may carry a JSON body); \<open>query\<close> is \<open>req.query.phone\<close>, \<open>None\<close> when the
  query has none. The route reads \<open>db.payments\<close>, which is keyed by reference, at the
  query's phone; an absent phone is the key \<open>undefined\<close>.
\<close>

definition mem_eligibility :: "string \<Rightarrow> string option \<Rightarrow> mem_db \<Rightarrow> mem_db \<times> response" where
  "mem_eligibility body_phone query db =
     (case verifyWhatsAppShares db body_phone (case query of Some q \<Rightarrow> q | None \<Rightarrow> []) of
        Inl r \<Rightarrow> (db, r)
      | Inr st \<Rightarrow>
          let phone = (case query of Some q \<Rightarrow> q | None \<Rightarrow> ''undefined'');
              hasPaid = verified_of (inherited db) (store_get (inherited db) (payments db) phone)
          in (db, (200,
                (case statusShares st of
                   Own r \<Rightarrow> EligibilitySharesBody (canAccessForm st) hasPaid (friends r) (groups r)
                 | StdMember k \<Rightarrow>
                     if k = ''__proto__''
                     then EligibilityShownBody (canAccessForm st) hasPaid
                            (AsProto (inherited db ''__proto__''))
                     else EligibilityBody (canAccessForm st) hasPaid
                 | DateObject t \<Rightarrow> EligibilityShownBody (canAccessForm st) hasPaid (AsDate t)
                 | PrimTrue \<Rightarrow> EligibilityShownBody (canAccessForm st) hasPaid AsTrue
                 | PrimNaN \<Rightarrow> EligibilityBody (canAccessForm st) hasPaid
                 | Undefined \<Rightarrow> EligibilityBody (canAccessForm st) hasPaid))))"

text \<open>\<open>GET /api/share-status\<close>, in memory: it answers zeros whatever is stored.\<close>

definition mem_share_status :: "string \<Rightarrow> mem_db \<Rightarrow> mem_db \<times> response" where
  "mem_share_status phone db =
     (db, (200, ShareStatusBody 0 0 (if phone \<noteq> [] then phone else ''none'')))"

text \<open>
  \<open>POST /api/application\<close>, in memory. \<open>form\<close> holds the fields of \<open>req.body\<close> other than
  \<open>phone\<close>; the whole body is stored, in place of any earlier record.
\<close>

definition mem_application ::
  "string \<Rightarrow> string \<Rightarrow> (string \<rightharpoonup> json) \<Rightarrow> mem_db \<Rightarrow> mem_db \<times> response" where
  "mem_application body_phone query_phone form db =
     (case verifyWhatsAppShares db body_phone query_phone of
        Inl r \<Rightarrow> (db, r)
      | Inr st \<Rightarrow>
          if \<not> canAccessForm st
          then (db, (403, ErrorBody ''Complete WhatsApp sharing requirements first''))
          else if body_phone = [] then (db, (400, ErrorBody ''Phone required''))
          else (db\<lparr>applications :=
                     (applications db)(body_phone \<mapsto> form(''phone'' \<mapsto> JStr body_phone))\<rparr>,
                (200, SuccessBody)))"

text \<open>
  The answer of Paystack's \<open>transaction/initialize\<close>: the call throws; or it resolves
  without \<open>data.data\<close>; or it resolves with the authorization URL and the access code.
\<close>

datatype init_reply = InitThrows | InitNoData | InitReply string string

text \<open>
  \<open>POST /api/init-payment\<close>. \<open>uuid\<close> is what \<open>uuidv4()\<close> returns. The record is stored as soon
  as the call has resolved, before the reply is read: a reply without \<open>data.data\<close> then
  throws into the \<open>catch\<close>, with the record left in the store.
\<close>

definition mem_init_payment ::
  "nat \<Rightarrow> string \<Rightarrow> init_reply \<Rightarrow> string \<Rightarrow> int \<Rightarrow> string \<Rightarrow> jsval \<Rightarrow>
   mem_db \<Rightarrow> mem_db \<times> response" where
  "mem_init_payment now uuid provider phone amount email isUpgrade0 db =
     (if phone = [] \<or> amount = 0 \<or> email = []
      then (db, (400, ErrorBody ''Phone, amount and email required''))
      else
        let isUpgrade = (case isUpgrade0 of None \<Rightarrow> JBool False | Some v \<Rightarrow> v);
            reference = ''PAY-'' @ uuid;
            db1 = db\<lparr>payments := (payments db)(reference \<mapsto>
                      \<lparr>pay_phone = phone, pay_amount = amount, pay_isUpgrade = isUpgrade,
                       pay_verified = False, pay_createdAt = now, pay_verifiedAt = None\<rparr>)\<rparr>
        in case provider of
             InitThrows \<Rightarrow> (db, (500, ErrorBody ''Payment initialization failed''))
           | InitNoData \<Rightarrow> (db1, (500, ErrorBody ''Payment initialization failed''))
           | InitReply authorization_url access_code \<Rightarrow>
               (db1, (200, InitBody authorization_url access_code reference)))"

text \<open>
  \<open>db.payments[reference].verified = true\<close> and \<open>.verifiedAt = new Date()\<close> on an inherited
  object. A new date at \<open>Object.prototype.verifiedAt\<close> has no extras yet.
\<close>

definition mark_verified :: "nat \<Rightarrow> string \<Rightarrow> mem_db \<Rightarrow> mem_db" where
  "mark_verified now k db =
     (let inh1 = (inherited db)(k := (inherited db k)\<lparr>x_verified := True, x_verifiedAt := Some now\<rparr>)
      in db\<lparr>inherited := (if k = ''__proto__'' then inh1(''verifiedAt'' := no_extras) else inh1)\<rparr>)"

text \<open>
  \<open>if (payment.isUpgrade && db.applications[payment.phone])
       db.applications[payment.phone].upgraded = true\<close>
\<close>

definition mark_upgraded :: "json \<Rightarrow> string \<Rightarrow> mem_db \<Rightarrow> mem_db" where
  "mark_upgraded isUpgrade phone db =
     (if truthy (Some isUpgrade) then
        (case store_get (inherited db) (applications db) phone of
           Own a \<Rightarrow> db\<lparr>applications := (applications db)(phone \<mapsto> a(''upgraded'' \<mapsto> JBool True))\<rparr>
         | StdMember k \<Rightarrow>
             db\<lparr>inherited := (inherited db)(k := (inherited db k)\<lparr>x_upgraded := True\<rparr>)\<rparr>
         | DateObject t \<Rightarrow>
             db\<lparr>inherited := (inherited db)(''verifiedAt'' :=
                    (inherited db ''verifiedAt'')\<lparr>x_upgraded := True\<rparr>)\<rparr>
         | PrimTrue \<Rightarrow> db
         | PrimNaN \<Rightarrow> db
         | Undefined \<Rightarrow> db)
      else db)"

text \<open>
  \<open>GET /api/verify-payment\<close>, in memory. \<open>provider reference\<close> is the status that Paystack's
  \<open>transaction/verify\<close> reports, or \<open>None\<close> when the call throws. The third component of
  the result lists the references the handler asked the provider about. An inherited
  object has no \<open>isUpgrade\<close> and no \<open>amount\<close>, so the reply for it is \<open>{success: true}\<close>.
\<close>

definition mem_verify_payment ::
  "nat \<Rightarrow> (string \<Rightarrow> string option) \<Rightarrow> string \<Rightarrow> mem_db \<Rightarrow> mem_db \<times> response \<times> string list" where
  "mem_verify_payment now provider reference db =
     (if reference = [] then (db, (400, ErrorBody ''Reference required''), [])
      else
        let payment = store_get (inherited db) (payments db) reference in
        if \<not> truthy_looked payment then (db, (404, ErrorBody ''Payment not found''), [])
        else
          (case provider reference of
             None \<Rightarrow> (db, (500, ErrorBody ''Payment verification failed''), [reference])
           | Some status \<Rightarrow>
               if status = ''success'' then
                 (case payment of
                    Own p \<Rightarrow>
                      (mark_upgraded (pay_isUpgrade p) (pay_phone p)
                         (db\<lparr>payments := (payments db)(reference \<mapsto>
                                p\<lparr>pay_verified := True, pay_verifiedAt := Some now\<rparr>)\<rparr>),
                       (200, VerifiedBody (pay_amount p) (pay_isUpgrade p)), [reference])
                  | StdMember k \<Rightarrow> (mark_verified now k db, (200, SuccessBody), [reference])
                  | DateObject t \<Rightarrow>
                      (mark_verified now ''verifiedAt'' db, (200, SuccessBody), [reference])
                  | PrimTrue \<Rightarrow> (db, (200, SuccessBody), [reference])
                  | PrimNaN \<Rightarrow> (db, (200, SuccessBody), [reference])
                  | Undefined \<Rightarrow> (db, (200, SuccessBody), [reference]))
               else (db, (200, NotCompletedBody ''Payment not completed''), [reference])))"

section \<open>The persistent variant: share status, application, payments, eligibility\<close>

text \<open>\<open>GET /api/share-status\<close>, persistent.\<close>

definition mongo_share_status :: "string \<Rightarrow> mongo_db \<Rightarrow> mongo_db \<times> response" where
  "mongo_share_status phone db =
     (if phone = [] then (db, (200, SharesBody 0 0))
      else
        case find (\<lambda>d. sd_phone d = phone) (sharesCol db) of
          Some d \<Rightarrow> (db, (200, SharesBody (or0 (sd_friends d)) (or0 (sd_groups d))))
        | None \<Rightarrow> (db, (200, SharesBody 0 0)))"

text \<open>
  \<open>POST /api/application\<close>, persistent. \<open>formData\<close> is the rest of \<open>req.body\<close> after \<open>phone\<close>;
  \<open>$set\<close> writes the listed fields into the document and keeps its other fields.
\<close>

definition mongo_application ::
  "nat \<Rightarrow> string \<Rightarrow> (string \<rightharpoonup> json) \<Rightarrow> mongo_db \<Rightarrow> mongo_db \<times> response" where
  "mongo_application now phone formData db =
     (if phone = [] then (db, (400, ErrorBody ''Phone required''))
      else
        let fields = formData ++ [''phone'' \<mapsto> JStr phone, ''updatedAt'' \<mapsto> JNum (int now)]
        in (db\<lparr>applicationsCol :=
                 updateOne (\<lambda>d. d ''phone'' = Some (JStr phone)) (\<lambda>d. d ++ fields) fields
                   (applicationsCol db)\<rparr>,
            (200, SuccessBody)))"

text \<open>
  \<open>POST /api/verify-payment\<close>, persistent. \<open>upgrade\<close> is the request body's field, coerced
  by \<open>!!\<close>. The whole handler body is inside \<open>try\<close>, so a throwing provider call is the 400
  of the \<open>catch\<close>.
\<close>

definition mongo_verify_payment ::
  "nat \<Rightarrow> (string \<Rightarrow> string option) \<Rightarrow> string \<Rightarrow> string \<Rightarrow> jsval \<Rightarrow> mongo_db \<Rightarrow>
   mongo_db \<times> response \<times> string list" where
  "mongo_verify_payment now provider reference phone upgrade db =
     (if reference = [] \<or> phone = [] then (db, (400, ErrorBody ''Missing reference or phone''), [])
      else
        case provider reference of
          None \<Rightarrow> (db, (400, ErrorBody ''Verification failed''), [reference])
        | Some status \<Rightarrow>
            if status = ''success'' then
              (db\<lparr>paymentsCol :=
                    updateOne (\<lambda>d. pd_phone d = JStr phone \<and> pd_reference d = JStr reference)
                      (\<lambda>d. d\<lparr>pd_status := ''success'', pd_upgrade := truthy upgrade,
                              pd_updatedAt := now\<rparr>)
                      \<lparr>pd_phone = JStr phone, pd_reference = JStr reference,
                       pd_status = ''success'', pd_upgrade = truthy upgrade, pd_updatedAt = now\<rparr>
                      (paymentsCol db)\<rparr>,
               (200, SuccessBody), [reference])
            else (db, (400, ErrorBody ''Payment not successful''), [reference]))"

text \<open>\<open>GET /api/eligibility\<close>, persistent.\<close>

definition mongo_eligibility :: "string \<Rightarrow> mongo_db \<Rightarrow> mongo_db \<times> response" where
  "mongo_eligibility phone db =
     (if phone = [] then (db, (200, EligibilityBody False False))
      else
        let shares = find (\<lambda>d. sd_phone d = phone) (sharesCol db);
            payment = find (\<lambda>d. pd_phone d = JStr phone \<and> pd_status d = ''success'')
                        (paymentsCol db)
        in (db, (200, EligibilityBody
                   (10 \<le> or0 (case shares of Some d \<Rightarrow> sd_friends d | None \<Rightarrow> 0) \<and>
                    2 \<le> or0 (case shares of Some d \<Rightarrow> sd_groups d | None \<Rightarrow> 0))
                   (payment \<noteq> None))))"

section \<open>The persistent variant: the Paystack webhook\<close>

datatype js_error = TypeError

text \<open>
  \<open>v.k\<close> and \<open>v?.k\<close> for the keys the webhook reads (\<open>event\<close>, \<open>data\<close>, \<open>metadata\<close>,
  \<open>customer\<close>, \<open>phone\<close>, \<open>reference\<close>, \<open>amount\<close>): reading a property of \<open>undefined\<close> or
  \<open>null\<close> throws, and strings, numbers, booleans and arrays have none of these properties.
\<close>

fun js_get :: "jsval \<Rightarrow> string \<Rightarrow> js_error + jsval" where
  "js_get None k = Inl TypeError"
| "js_get (Some JNull) k = Inl TypeError"
| "js_get (Some (JObj kvs)) k = Inr (map_of kvs k)"
| "js_get (Some v) k = Inr None"

fun js_opt_get :: "jsval \<Rightarrow> string \<Rightarrow> jsval" where
  "js_opt_get None k = None"
| "js_opt_get (Some JNull) k = None"
| "js_opt_get (Some (JObj kvs)) k = map_of kvs k"
| "js_opt_get (Some v) k = None"

text \<open>
  \<open>ToNumber\<close>, with \<open>None\<close> for \<open>NaN\<close>. The conversion of strings, arrays and objects goes
  through their text and is the parameter \<open>conv\<close>.
\<close>

fun toNumber :: "(json \<Rightarrow> int option) \<Rightarrow> jsval \<Rightarrow> int option" where
  "toNumber conv None = None"
| "toNumber conv (Some JNull) = Some 0"
| "toNumber conv (Some (JBool b)) = Some (if b then 1 else 0)"
| "toNumber conv (Some (JNum n)) = Some n"
| "toNumber conv (Some v) = conv v"

text \<open>The driver writes \<open>undefined\<close> as \<open>null\<close>.\<close>

definition stored :: "jsval \<Rightarrow> json" where
  "stored v = (case v of None \<Rightarrow> JNull | Some j \<Rightarrow> j)"

text \<open>\<open>data.metadata?.phone || data.customer?.phone || null\<close>\<close>

definition webhook_phone :: "jsval \<Rightarrow> js_error + jsval" where
  "webhook_phone data =
     (case js_get data ''metadata'' of
        Inl e \<Rightarrow> Inl e
      | Inr metadata \<Rightarrow>
          let m = js_opt_get metadata ''phone'' in
          if truthy m then Inr m
          else
            (case js_get data ''customer'' of
               Inl e \<Rightarrow> Inl e
             | Inr customer \<Rightarrow>
                 let c = js_opt_get customer ''phone''
                 in Inr (if truthy c then c else Some JNull)))"

text \<open>
  What the route finds in \<open>req.body\<close>. \<open>app.use(express.json())\<close> runs for every request
  before the route's own \<open>express.raw({type: 'application/json'})\<close>: a JSON body, which in
  strict mode is an object or an array, is already parsed when \<open>express.raw\<close> sees the
  request, so \<open>express.raw\<close> leaves it alone and the handler never gets a buffer. A request
  of another content type, or without a body, is parsed by neither (\<open>NoBody\<close>). A body that
  \<open>express.json\<close> rejects does not reach the handler.
\<close>

datatype req_body = NoBody | ObjectBody "(string \<times> json) list" | ArrayBody "json list"

text \<open>
  \<open>JSON.parse(req.body.toString())\<close>, \<open>None\<close> when it throws. The text of an object is
  \<open>[object Object]\<close>, which is not JSON (and an object with a \<open>toString\<close> field of its own
  makes the call itself throw); with no body there is \<open>{}\<close> or nothing to call \<open>toString\<close>
  on. The text of an array is its elements joined by commas, and \<open>parse_joined xs\<close> is what
  \<open>JSON.parse\<close> makes of it.
\<close>

definition webhook_event :: "(json list \<Rightarrow> json option) \<Rightarrow> req_body \<Rightarrow> json option" where
  "webhook_event parse_joined b =
     (case b of
        NoBody \<Rightarrow> None
      | ObjectBody kvs \<Rightarrow> None
      | ArrayBody xs \<Rightarrow> parse_joined xs)"

text \<open>
  A filter value that the store does not compare by plain equality: an array, or an
  object with a field whose name starts with \<open>$\<close>, which the store reads as a query
  operator (and rejects when it does not know it).
\<close>

fun not_plain :: "json \<Rightarrow> bool" where
  "not_plain (JArr xs) = True"
| "not_plain (JObj kvs) = list_ex (\<lambda>kv. take 1 (fst kv) = ''$'') kvs"
| "not_plain v = False"

text \<open>
  The outcome of the webhook: a response, with the store after it; an exception outside
  the \<open>try\<close>, which leaves the handler without a response of its own, with the store as it
  was; or a call of the store with a filter that is not plain, of which the model says
  nothing.
\<close>

datatype webhook_result = Replied mongo_db response | Threw mongo_db | FilterNotPlain

text \<open>
  \<open>POST /api/paystack-webhook\<close>. Only the parse is inside \<open>try\<close>. The connection to the
  store is taken to be up.
\<close>

definition mongo_paystack_webhook ::
  "nat \<Rightarrow> (json \<Rightarrow> int option) \<Rightarrow> (json list \<Rightarrow> json option) \<Rightarrow> req_body \<Rightarrow> mongo_db \<Rightarrow>
   webhook_result" where
  "mongo_paystack_webhook now conv parse_joined b db =
     (case webhook_event parse_joined b of
        None \<Rightarrow> Replied db (400, TextBody ''Invalid payload'')
      | Some event \<Rightarrow>
          (case js_get (Some event) ''event'' of
             Inl e \<Rightarrow> Threw db
           | Inr ev \<Rightarrow>
               if ev = Some (JStr ''charge.success'') then
                 (case js_get (Some event) ''data'' of
                    Inl e \<Rightarrow> Threw db
                  | Inr data \<Rightarrow>
                      (case webhook_phone data of
                         Inl e \<Rightarrow> Threw db
                       | Inr phone \<Rightarrow>
                           if truthy phone then
                             (case js_get data ''reference'' of
                                Inl e \<Rightarrow> Threw db
                              | Inr reference \<Rightarrow>
                                  (case js_get data ''amount'' of
                                     Inl e \<Rightarrow> Threw db
                                   | Inr amount \<Rightarrow>
                                       if not_plain (stored phone) \<or> not_plain (stored reference)
                                       then FilterNotPlain
                                       else
                                         let upgrade = (case toNumber conv amount of
                                                          Some n \<Rightarrow> 100000 \<le> n
                                                        | None \<Rightarrow> False)
                                         in Replied
                                              (db\<lparr>paymentsCol :=
                                                 updateOne
                                                   (\<lambda>d. pd_phone d = stored phone \<and>
                                                         pd_reference d = stored reference)
                                                   (\<lambda>d. d\<lparr>pd_status := ''success'',
                                                           pd_upgrade := upgrade,
                                                           pd_updatedAt := now\<rparr>)
                                                   \<lparr>pd_phone = stored phone,
                                                    pd_reference = stored reference,
                                                    pd_status = ''success'', pd_upgrade = upgrade,
                                                    pd_updatedAt = now\<rparr>
                                                   (paymentsCol db)\<rparr>)
                                              (200, TextBody ''OK'')))
                           else Replied db (200, TextBody ''OK'')))
               else Replied db (200, TextBody ''OK'')))"

section \<open>Runs of share events\<close>

text \<open>
  A finite sequence of \<open>POST /api/share\<close> requests, applied from left to right. A persistent
  request carries the time at which it is served.
\<close>

abbreviation mem_share_run :: "(string \<times> string) list \<Rightarrow> mem_db \<Rightarrow> mem_db" where
  "mem_share_run evs db \<equiv> fold (\<lambda>(phone, type) s. fst (mem_share phone type s)) evs db"

abbreviation mongo_share_run :: "(nat \<times> string \<times> string) list \<Rightarrow> mongo_db \<Rightarrow> mongo_db" where
  "mongo_share_run evs db \<equiv> fold (\<lambda>(now, phone, type) s. fst (mongo_share now phone type s)) evs db"

abbreviation within_caps :: "int \<Rightarrow> int \<Rightarrow> bool" where
  "within_caps f g \<equiv> 0 \<le> f \<and> f \<le> 10 \<and> 0 \<le> g \<and> g \<le> 2"

section \<open>The share ledger: lookups, and what one event does\<close>

lemma find_updateOne_key:
  assumes "\<And>d. key (f d) = key d" and "key ins = k"
  shows "find (\<lambda>d. key d = q) (updateOne (\<lambda>d. key d = k) f ins ds) =
         (if q = k then Some (case find (\<lambda>d. key d = k) ds of Some d \<Rightarrow> f d | None \<Rightarrow> ins)
          else find (\<lambda>d. key d = q) ds)"
  using assms by (induction ds) auto

lemma mongo_share_findShares:
  "mongo_findShares (fst (mongo_share now phone type db)) q =
     (if phone = [] \<or> q \<noteq> phone then mongo_findShares db q
      else if type = ''friend''
        then (min (or0 (fst (mongo_findShares db phone)) + 1) 10, snd (mongo_findShares db phone))
      else if type = ''group''
        then (fst (mongo_findShares db phone), min (or0 (snd (mongo_findShares db phone)) + 1) 2)
      else mongo_findShares db phone)"
  by (auto simp: mongo_share_def mongo_findShares_def Let_def find_updateOne_key
           split: prod.splits option.splits)

lemma store_get_Some [simp]: "store k = Some v \<Longrightarrow> store_get inh store k = Own v"
  by (simp add: store_get_def)

lemma store_get_Own_iff: "(store_get inh store k = Own v) = (store k = Some v)"
  by (simp add: store_get_def split: option.splits)

lemma store_get_upd:
  "store_get inh (store(q \<mapsto> v)) k = (if k = q then Own v else store_get inh store k)"
  by (simp add: store_get_def)

lemma mem_share_shares:
  "shares (fst (mem_share phone type db)) q =
     (if phone = [] \<or> type = [] \<or> q \<noteq> phone then shares db q
      else case shares db phone of
        Some r \<Rightarrow>
          Some (if type = ''friend'' then r\<lparr>friends := min (friends r + 1) 10\<rparr>
                else if type = ''group'' then r\<lparr>groups := min (groups r + 1) 2\<rparr>
                else r)
      | None \<Rightarrow>
          if truthy_looked (store_get (inherited db) (shares db) phone) then None
          else Some (if type = ''friend'' then \<lparr>friends = 1, groups = 0\<rparr>
                     else if type = ''group'' then \<lparr>friends = 0, groups = 1\<rparr>
                     else \<lparr>friends = 0, groups = 0\<rparr>))"
proof (cases "store_get (inherited db) (shares db) phone")
  case (Own r)
  then have "shares db phone = Some r" by (simp add: store_get_Own_iff)
  with Own show ?thesis
    by (simp add: mem_share_def Let_def bump_friends_def bump_groups_def)
next
  case (StdMember k)
  then have n: "shares db phone = None" by (cases "shares db phone") simp_all
  with StdMember show ?thesis
    by (simp add: mem_share_def Let_def bump_friends_def bump_groups_def)
next
  case (DateObject t)
  then have n: "shares db phone = None" by (cases "shares db phone") simp_all
  with DateObject show ?thesis
    by (simp add: mem_share_def Let_def bump_friends_def bump_groups_def)
next
  case PrimTrue
  then have n: "shares db phone = None" by (cases "shares db phone") simp_all
  with PrimTrue show ?thesis
    by (simp add: mem_share_def Let_def bump_friends_def bump_groups_def)
next
  case PrimNaN
  then have n: "shares db phone = None" by (cases "shares db phone") simp_all
  with PrimNaN show ?thesis
    by (simp add: mem_share_def Let_def bump_friends_def bump_groups_def store_get_upd)
next
  case Undefined
  then have n: "shares db phone = None" by (cases "shares db phone") simp_all
  with Undefined show ?thesis
    by (simp add: mem_share_def Let_def bump_friends_def bump_groups_def store_get_upd)
qed

section \<open>The caps are an invariant of the stored share records\<close>

lemma mem_share_own_caps:
  assumes "\<And>q r. shares db q = Some r \<Longrightarrow> within_caps (friends r) (groups r)"
    and "shares (fst (mem_share phone type db)) q = Some r"
  shows "within_caps (friends r) (groups r)"
proof (cases "phone = [] \<or> type = [] \<or> q \<noteq> phone")
  case True
  with assms(2) have "shares db q = Some r" by (simp add: mem_share_shares)
  then show ?thesis by (rule assms(1))
next
  case False
  show ?thesis
  proof (cases "shares db phone")
    case None
    with False assms(2) show ?thesis
      by (auto simp: mem_share_shares split: if_splits)
  next
    case (Some r0)
    from assms(1) [OF Some] have "within_caps (friends r0) (groups r0)" .
    with False Some assms(2) show ?thesis
      by (auto simp: mem_share_shares split: if_splits)
  qed
qed

lemma mem_run_own_caps:
  assumes "\<And>q r. shares db q = Some r \<Longrightarrow> within_caps (friends r) (groups r)"
    and "shares (mem_share_run evs db) q = Some r"
  shows "within_caps (friends r) (groups r)"
  using assms
proof (induction evs arbitrary: db q r)
  case Nil
  then show ?case by simp
next
  case (Cons ev evs)
  obtain phone type where ev: "ev = (phone, type)" by (cases ev)
  have step: "\<And>q r. shares (fst (mem_share phone type db)) q = Some r \<Longrightarrow>
                within_caps (friends r) (groups r)"
    by (rule mem_share_own_caps [of db]) (rule Cons.prems(1))
  from Cons.prems(2) have "shares (mem_share_run evs (fst (mem_share phone type db))) q = Some r"
    by (simp add: ev)
  with step show ?case by (rule Cons.IH)
qed

lemma mongo_share_caps:
  assumes "\<And>q. within_caps (fst (mongo_findShares db q)) (snd (mongo_findShares db q))"
  shows "within_caps (fst (mongo_findShares (fst (mongo_share now phone type db)) q))
           (snd (mongo_findShares (fst (mongo_share now phone type db)) q))"
  using assms [of q] assms [of phone] by (simp add: mongo_share_findShares or0_def)

lemma mongo_run_caps:
  assumes "\<And>q. within_caps (fst (mongo_findShares db q)) (snd (mongo_findShares db q))"
  shows "within_caps (fst (mongo_findShares (mongo_share_run evs db) q))
           (snd (mongo_findShares (mongo_share_run evs db) q))"
  using assms
proof (induction evs arbitrary: db q)
  case Nil
  then show ?case by simp
next
  case (Cons ev evs)
  obtain now phone type where ev: "ev = (now, phone, type)" by (cases ev)
  show ?case
    unfolding ev fold_simps prod.case
    by (rule Cons.IH) (rule mongo_share_caps, rule Cons.prems)
qed

text \<open>
  For every sequence of share requests from the empty store, the persistent counters of
  every phone, and the counters of every record that the in-memory store holds, are within
  the caps.
\<close>

lemma share_records_within_caps:
  "within_caps (fst (mongo_findShares (mongo_share_run tevs mongo_init) q))
     (snd (mongo_findShares (mongo_share_run tevs mongo_init) q))"
  "shares (mem_share_run evs mem_init) q = Some r \<Longrightarrow> within_caps (friends r) (groups r)"
proof -
  have p: "\<And>q. within_caps (fst (mongo_findShares mongo_init q)) (snd (mongo_findShares mongo_init q))"
    by (simp add: mongo_findShares_def mongo_init_def)
  from mongo_run_caps [OF p, of tevs q]
  show "within_caps (fst (mongo_findShares (mongo_share_run tevs mongo_init) q))
     (snd (mongo_findShares (mongo_share_run tevs mongo_init) q))" .
  have m: "\<And>q r. shares mem_init q = Some r \<Longrightarrow> within_caps (friends r) (groups r)"
    by (simp add: mem_init_def)
  show "shares (mem_share_run evs mem_init) q = Some r \<Longrightarrow> within_caps (friends r) (groups r)"
    by (rule mem_run_own_caps [of mem_init]) (rule m)
qed

lemma store_get_constructor:
  "store ''constructor'' = None \<Longrightarrow> store_get inh store ''constructor'' = StdMember ''constructor''"
  by (simp add: store_get_def standard_members_def)

text \<open>
  Claim C3 at a failing input. In memory, on the fresh store, a \<open>friend\<close> share for the
  phone \<open>constructor\<close>: \<open>db.shares['constructor']\<close> is the \<open>Object\<close> function that every object
  inherits, so the handler creates no record, writes \<open>friends = NaN\<close> onto that function
  and replies with an empty body. What the handlers read from then on as the share record
  of this phone has \<open>friends = NaN\<close>, where the claim asks for a value from 0 to 10.
\<close>

theorem share_on_inherited_key:
  "mem_userShares mem_init ''constructor'' = StdMember ''constructor'' \<and>
   shares (fst (mem_share ''constructor'' ''friend'' mem_init)) ''constructor'' = None \<and>
   mem_userShares (fst (mem_share ''constructor'' ''friend'' mem_init)) ''constructor'' =
     StdMember ''constructor'' \<and>
   x_friends (inherited (fst (mem_share ''constructor'' ''friend'' mem_init)) ''constructor'') \<and>
   snd (mem_share ''constructor'' ''friend'' mem_init) = (200, EmptyBody)"
  by (simp add: mem_share_def mem_userShares_def mem_init_def store_get_constructor
        bump_friends_def share_reply_def Let_def)

section \<open>One share event: below the cap and at the cap\<close>

lemma map_updateOne_same:
  assumes "find P ds = Some d0" and "g (f d0) = g d0"
  shows "map g (updateOne P f ins ds) = map g ds"
  using assms by (induction ds) (auto split: if_splits)

lemma mongo_share_at_cap_friend:
  assumes "phone \<noteq> []" and "fst (mongo_findShares db phone) = 10"
  shows "map (\<lambda>d. (sd_phone d, sd_friends d, sd_groups d)) (sharesCol (fst (mongo_share now phone ''friend'' db))) =
         map (\<lambda>d. (sd_phone d, sd_friends d, sd_groups d)) (sharesCol db)"
proof -
  from assms(2) obtain d0 where d0: "find (\<lambda>d. sd_phone d = phone) (sharesCol db) = Some d0"
    and f: "sd_friends d0 = 10"
    by (auto simp: mongo_findShares_def split: option.splits)
  from find_Some_iff [THEN iffD1, OF d0] have ph: "sd_phone d0 = phone" by auto
  show ?thesis
    using d0 f ph
    by (simp add: mongo_share_def mongo_findShares_def Let_def or0_def
          map_updateOne_same [OF d0])
qed

lemma mongo_share_at_cap_group:
  assumes "phone \<noteq> []" and "snd (mongo_findShares db phone) = 2"
  shows "map (\<lambda>d. (sd_phone d, sd_friends d, sd_groups d)) (sharesCol (fst (mongo_share now phone ''group'' db))) =
         map (\<lambda>d. (sd_phone d, sd_friends d, sd_groups d)) (sharesCol db)"
proof -
  from assms(2) obtain d0 where d0: "find (\<lambda>d. sd_phone d = phone) (sharesCol db) = Some d0"
    and f: "sd_groups d0 = 2"
    by (auto simp: mongo_findShares_def split: option.splits)
  from find_Some_iff [THEN iffD1, OF d0] have ph: "sd_phone d0 = phone" by auto
  show ?thesis
    using d0 f ph
    by (simp add: mongo_share_def mongo_findShares_def Let_def or0_def
          map_updateOne_same [OF d0])
qed

lemma mongo_share_other_cols:
  "paymentsCol (fst (mongo_share now phone type db)) = paymentsCol db \<and>
   applicationsCol (fst (mongo_share now phone type db)) = applicationsCol db"
  by (simp add: mongo_share_def Let_def split: prod.splits)

lemma mongo_group_step:
  "phone \<noteq> [] \<Longrightarrow> snd (mongo_findShares (fst (mongo_share now phone ''group'' db)) phone) =
     min (or0 (snd (mongo_findShares db phone)) + 1) 2"
  by (simp add: mongo_share_findShares)

lemma five_mongo:
  assumes "phone \<noteq> []"
  shows "snd (mongo_findShares
     (mongo_share_run [(t1, phone, ''group''), (t2, phone, ''group''), (t3, phone, ''group''),
                       (t4, phone, ''group''), (t5, phone, ''group'')] mongo_init) phone) = 2"
proof -
  have "snd (mongo_findShares mongo_init phone) = 0"
    by (simp add: mongo_findShares_def mongo_init_def)
  then show ?thesis
    by (simp add: mongo_group_step [OF assms] or0_def)
qed

lemma mongo_share_below_cap:
  assumes "phone \<noteq> []"
  shows "fst (mongo_findShares pdb phone) < 10 \<Longrightarrow>
      mongo_findShares (fst (mongo_share now phone ''friend'' pdb)) phone =
        (fst (mongo_findShares pdb phone) + 1, snd (mongo_findShares pdb phone))"
    and "snd (mongo_findShares pdb phone) < 2 \<Longrightarrow>
      mongo_findShares (fst (mongo_share now phone ''group'' pdb)) phone =
        (fst (mongo_findShares pdb phone), snd (mongo_findShares pdb phone) + 1)"
  using assms by (simp_all add: mongo_share_findShares or0_def)

lemma mem_userShares_Own:
  "(mem_userShares db phone = Own r) =
     (shares db phone = Some r \<or>
      \<not> truthy_looked (store_get (inherited db) (shares db) phone) \<and> r = \<lparr>friends = 0, groups = 0\<rparr>)"
  by (cases "store_get (inherited db) (shares db) phone")
     (auto simp: mem_userShares_def Let_def store_get_Own_iff)

lemma mem_userShares_shares:
  "shares db phone = Some r \<Longrightarrow> mem_userShares db phone = Own r"
  by (simp add: mem_userShares_Own)

lemma mem_share_below_cap:
  assumes "phone \<noteq> []" and "mem_userShares db phone = Own r"
  shows "friends r < 10 \<Longrightarrow>
           mem_userShares (fst (mem_share phone ''friend'' db)) phone = Own (r\<lparr>friends := friends r + 1\<rparr>)"
    and "groups r < 2 \<Longrightarrow>
           mem_userShares (fst (mem_share phone ''group'' db)) phone = Own (r\<lparr>groups := groups r + 1\<rparr>)"
proof -
  from assms(2) consider (own) "shares db phone = Some r"
    | (fresh) "shares db phone = None" "\<not> truthy_looked (store_get (inherited db) (shares db) phone)"
        "r = \<lparr>friends = 0, groups = 0\<rparr>"
    by (cases "shares db phone") (auto simp: mem_userShares_Own)
  then have
    "(friends r < 10 \<longrightarrow>
        shares (fst (mem_share phone ''friend'' db)) phone = Some (r\<lparr>friends := friends r + 1\<rparr>)) \<and>
     (groups r < 2 \<longrightarrow>
        shares (fst (mem_share phone ''group'' db)) phone = Some (r\<lparr>groups := groups r + 1\<rparr>))"
  proof cases
    case own
    with assms(1) show ?thesis by (simp add: mem_share_shares)
  next
    case fresh
    with assms(1) show ?thesis by (simp add: mem_share_shares)
  qed
  then show "friends r < 10 \<Longrightarrow>
           mem_userShares (fst (mem_share phone ''friend'' db)) phone = Own (r\<lparr>friends := friends r + 1\<rparr>)"
    and "groups r < 2 \<Longrightarrow>
           mem_userShares (fst (mem_share phone ''group'' db)) phone = Own (r\<lparr>groups := groups r + 1\<rparr>)"
    by (simp_all add: mem_userShares_shares)
qed

lemma mem_share_at_cap:
  assumes "phone \<noteq> []" and "mem_userShares db phone = Own r"
  shows "friends r = 10 \<Longrightarrow> fst (mem_share phone ''friend'' db) = db"
    and "groups r = 2 \<Longrightarrow> fst (mem_share phone ''group'' db) = db"
proof -
  {
    assume "friends r = 10 \<or> groups r = 2"
    with assms(2) have "shares db phone = Some r"
      by (auto simp: mem_userShares_Own)
  }
  note own = this
  show "friends r = 10 \<Longrightarrow> fst (mem_share phone ''friend'' db) = db"
    using assms(1) own
    by (simp add: mem_share_def Let_def bump_friends_def map_upd_triv)
  show "groups r = 2 \<Longrightarrow> fst (mem_share phone ''group'' db) = db"
    using assms(1) own
    by (simp add: mem_share_def Let_def bump_groups_def map_upd_triv)
qed

lemma store_get_plain:
  assumes "\<not> List.member standard_members k" and "store k = None"
    and "k \<noteq> ''verified''" and "k \<noteq> ''upgraded''" and "k \<noteq> ''verifiedAt''"
  shows "\<not> truthy_looked (store_get inh store k)"
  using assms by (simp add: store_get_def)

lemma five_mem:
  assumes "phone \<noteq> []" and "\<not> List.member standard_members phone"
    and "phone \<noteq> ''verified''" and "phone \<noteq> ''upgraded''" and "phone \<noteq> ''verifiedAt''"
  shows "shares
     (mem_share_run [(phone, ''group''), (phone, ''group''), (phone, ''group''),
                     (phone, ''group''), (phone, ''group'')] mem_init) phone =
     Some \<lparr>friends = 0, groups = 2\<rparr>"
proof -
  have "shares mem_init phone = None" by (simp add: mem_init_def)
  with assms(2-5) have "\<not> truthy_looked (store_get (inherited mem_init) (shares mem_init) phone)"
    by (intro store_get_plain)
  with assms(1) \<open>shares mem_init phone = None\<close> show ?thesis
    by (simp add: mem_share_shares)
qed

text \<open>
  One event on a record. For a non-empty phone whose share record the in-memory handlers
  read as the record \<open>r\<close> (a stored one, or \<open>0/0\<close> when the lookup finds nothing), and in the
  persistent variant for every non-empty phone: an event on a counter below its cap adds
  exactly one to it and leaves the other counter as it was; an event on a counter at its
  cap changes nothing that is stored in memory, and in the persistent store leaves every
  document's phone, \<open>friends\<close> and \<open>groups\<close> and the other collections as they were; five
  \<open>group\<close> events from the empty persistent store leave \<open>groups = 2\<close>.
\<close>

lemma share_step_on_records:
  assumes "phone \<noteq> []"
  shows
  "(mem_userShares db phone = Own r \<longrightarrow>
      (friends r < 10 \<longrightarrow>
         mem_userShares (fst (mem_share phone ''friend'' db)) phone = Own (r\<lparr>friends := friends r + 1\<rparr>)) \<and>
      (groups r < 2 \<longrightarrow>
         mem_userShares (fst (mem_share phone ''group'' db)) phone = Own (r\<lparr>groups := groups r + 1\<rparr>)) \<and>
      (friends r = 10 \<longrightarrow> fst (mem_share phone ''friend'' db) = db) \<and>
      (groups r = 2 \<longrightarrow> fst (mem_share phone ''group'' db) = db)) \<and>
   (fst (mongo_findShares pdb phone) < 10 \<longrightarrow>
      mongo_findShares (fst (mongo_share now phone ''friend'' pdb)) phone =
        (fst (mongo_findShares pdb phone) + 1, snd (mongo_findShares pdb phone))) \<and>
   (snd (mongo_findShares pdb phone) < 2 \<longrightarrow>
      mongo_findShares (fst (mongo_share now phone ''group'' pdb)) phone =
        (fst (mongo_findShares pdb phone), snd (mongo_findShares pdb phone) + 1)) \<and>
   (fst (mongo_findShares pdb phone) = 10 \<longrightarrow>
      map (\<lambda>d. (sd_phone d, sd_friends d, sd_groups d))
          (sharesCol (fst (mongo_share now phone ''friend'' pdb))) =
      map (\<lambda>d. (sd_phone d, sd_friends d, sd_groups d)) (sharesCol pdb) \<and>
      paymentsCol (fst (mongo_share now phone ''friend'' pdb)) = paymentsCol pdb \<and>
      applicationsCol (fst (mongo_share now phone ''friend'' pdb)) = applicationsCol pdb) \<and>
   (snd (mongo_findShares pdb phone) = 2 \<longrightarrow>
      map (\<lambda>d. (sd_phone d, sd_friends d, sd_groups d))
          (sharesCol (fst (mongo_share now phone ''group'' pdb))) =
      map (\<lambda>d. (sd_phone d, sd_friends d, sd_groups d)) (sharesCol pdb) \<and>
      paymentsCol (fst (mongo_share now phone ''group'' pdb)) = paymentsCol pdb \<and>
      applicationsCol (fst (mongo_share now phone ''group'' pdb)) = applicationsCol pdb) \<and>
   snd (mongo_findShares
     (mongo_share_run [(t1, phone, ''group''), (t2, phone, ''group''), (t3, phone, ''group''),
                       (t4, phone, ''group''), (t5, phone, ''group'')] mongo_init) phone) = 2"
  apply (intro conjI impI)
  apply (erule (1) mem_share_below_cap(1) [OF assms])
  apply (erule (1) mem_share_below_cap(2) [OF assms])
  apply (erule (1) mem_share_at_cap(1) [OF assms])
  apply (erule (1) mem_share_at_cap(2) [OF assms])
  apply (erule mongo_share_below_cap(1) [OF assms])
  apply (erule mongo_share_below_cap(2) [OF assms])
  apply (erule mongo_share_at_cap_friend [OF assms])
  apply (rule mongo_share_other_cols [THEN conjunct1])
  apply (rule mongo_share_other_cols [THEN conjunct2])
  apply (erule mongo_share_at_cap_group [OF assms])
  apply (rule mongo_share_other_cols [THEN conjunct1])
  apply (rule mongo_share_other_cols [THEN conjunct2])
  apply (rule five_mongo [OF assms])
  done

lemma mem_share_constructor:
  assumes "shares db ''constructor'' = None"
  shows "mem_share ''constructor'' ''group'' db =
     (db\<lparr>inherited := (inherited db)(''constructor'' := (inherited db ''constructor'')\<lparr>x_groups := True\<rparr>)\<rparr>,
      (200, EmptyBody))"
  using assms
  by (simp add: mem_share_def store_get_constructor bump_groups_def share_reply_def Let_def)

text \<open>
  Claim C8 at a failing input. In memory, five \<open>group\<close> shares for the phone \<open>constructor\<close>
  from the fresh store: each finds the inherited \<open>Object\<close> function, so no record is ever
  created, \<open>groups\<close> of that function is \<open>NaN\<close> after the first event and stays so, and each
  reply is empty. The claim asks for an increase by exactly one per event below the cap and
  for \<open>groups = 2\<close> after the five.
\<close>

theorem group_shares_on_inherited_key:
  "shares (mem_share_run [(''constructor'', ''group''), (''constructor'', ''group''),
      (''constructor'', ''group''), (''constructor'', ''group''), (''constructor'', ''group'')]
      mem_init) ''constructor'' = None \<and>
   mem_userShares (mem_share_run [(''constructor'', ''group''), (''constructor'', ''group''),
      (''constructor'', ''group''), (''constructor'', ''group''), (''constructor'', ''group'')]
      mem_init) ''constructor'' = StdMember ''constructor'' \<and>
   x_groups (inherited (mem_share_run [(''constructor'', ''group''), (''constructor'', ''group''),
      (''constructor'', ''group''), (''constructor'', ''group''), (''constructor'', ''group'')]
      mem_init) ''constructor'') \<and>
   snd (mem_share ''constructor'' ''group'' mem_init) = (200, EmptyBody)"
proof -
  have n: "shares mem_init ''constructor'' = None" by (simp add: mem_init_def)
  show ?thesis
    by (simp add: mem_share_constructor n mem_userShares_def store_get_constructor)
qed

section \<open>Payment verification when the provider reports success\<close>

lemma find_updateOne_same:
  assumes "\<And>d. P d \<Longrightarrow> P (f d)" and "P ins"
  shows "find P (updateOne P f ins ds) =
         Some (case find P ds of Some d \<Rightarrow> f d | None \<Rightarrow> ins)"
  using assms by (induction ds) auto

lemma find_holds: "find P ds = Some d \<Longrightarrow> P d"
  by (induction ds) (auto split: if_splits)

lemma mongo_verify_success:
  assumes "reference \<noteq> []" and "phone \<noteq> []" and "provider reference = Some ''success''"
  shows "find (\<lambda>d. pd_phone d = JStr phone \<and> pd_reference d = JStr reference)
           (paymentsCol (fst (mongo_verify_payment now provider reference phone upgrade db))) =
         Some \<lparr>pd_phone = JStr phone, pd_reference = JStr reference, pd_status = ''success'',
               pd_upgrade = truthy upgrade, pd_updatedAt = now\<rparr>"
    and "sharesCol (fst (mongo_verify_payment now provider reference phone upgrade db)) = sharesCol db"
    and "applicationsCol (fst (mongo_verify_payment now provider reference phone upgrade db)) =
         applicationsCol db"
    and "snd (mongo_verify_payment now provider reference phone upgrade db) =
         ((200, SuccessBody), [reference])"
proof -
  show "find (\<lambda>d. pd_phone d = JStr phone \<and> pd_reference d = JStr reference)
           (paymentsCol (fst (mongo_verify_payment now provider reference phone upgrade db))) =
         Some \<lparr>pd_phone = JStr phone, pd_reference = JStr reference, pd_status = ''success'',
               pd_upgrade = truthy upgrade, pd_updatedAt = now\<rparr>"
    using assms
    by (auto simp: mongo_verify_payment_def find_updateOne_same split: option.splits
             dest!: find_holds)
qed (use assms in \<open>simp_all add: mongo_verify_payment_def\<close>)

text \<open>
  Claim C10. In the persistent \<open>POST /api/verify-payment\<close>, with a non-empty reference and
  phone and a provider that reports \<open>success\<close>, the payment document found afterwards for
  (phone, reference) has \<open>upgrade = !!upgrade\<close> of the request body, whatever the store held
  before: two runs from stores \<open>db1\<close> and \<open>db2\<close> with the same request leave the same document.
\<close>

theorem verify_upgrade_from_request:
  assumes "reference \<noteq> []" and "phone \<noteq> []" and "provider reference = Some ''success''"
  shows
  "find (\<lambda>d. pd_phone d = JStr phone \<and> pd_reference d = JStr reference)
     (paymentsCol (fst (mongo_verify_payment now provider reference phone upgrade db1))) =
   Some \<lparr>pd_phone = JStr phone, pd_reference = JStr reference, pd_status = ''success'',
         pd_upgrade = truthy upgrade, pd_updatedAt = now\<rparr> \<and>
   find (\<lambda>d. pd_phone d = JStr phone \<and> pd_reference d = JStr reference)
     (paymentsCol (fst (mongo_verify_payment now provider reference phone upgrade db2))) =
   find (\<lambda>d. pd_phone d = JStr phone \<and> pd_reference d = JStr reference)
     (paymentsCol (fst (mongo_verify_payment now provider reference phone upgrade db1)))"
  using assms by (simp add: mongo_verify_success(1))

text \<open>
  The theorem at reference \<open>PAY-1\<close>, phone \<open>0801\<close>, \<open>upgrade = true\<close>, on the empty store and on
  a store that already holds the payment with \<open>upgrade = false\<close>.
\<close>

theorem verify_upgrade_from_request_witness:
  "find (\<lambda>d. pd_phone d = JStr ''0801'' \<and> pd_reference d = JStr ''PAY-1'')
     (paymentsCol (fst (mongo_verify_payment 2 (\<lambda>r. Some ''success'') ''PAY-1'' ''0801''
        (Some (JBool True)) mongo_init))) =
   Some \<lparr>pd_phone = JStr ''0801'', pd_reference = JStr ''PAY-1'', pd_status = ''success'',
         pd_upgrade = True, pd_updatedAt = 2\<rparr> \<and>
   find (\<lambda>d. pd_phone d = JStr ''0801'' \<and> pd_reference d = JStr ''PAY-1'')
     (paymentsCol (fst (mongo_verify_payment 2 (\<lambda>r. Some ''success'') ''PAY-1'' ''0801''
        (Some (JBool True))
        \<lparr>sharesCol = [],
         paymentsCol = [\<lparr>pd_phone = JStr ''0801'', pd_reference = JStr ''PAY-1'',
                         pd_status = ''pending'', pd_upgrade = False, pd_updatedAt = 1\<rparr>],
         applicationsCol = []\<rparr>))) =
   Some \<lparr>pd_phone = JStr ''0801'', pd_reference = JStr ''PAY-1'', pd_status = ''success'',
         pd_upgrade = True, pd_updatedAt = 2\<rparr>"
  using verify_upgrade_from_request [of "''PAY-1''" "''0801''" "\<lambda>r. Some ''success''" 2
      "Some (JBool True)" mongo_init
      "\<lparr>sharesCol = [],
        paymentsCol = [\<lparr>pd_phone = JStr ''0801'', pd_reference = JStr ''PAY-1'',
                        pd_status = ''pending'', pd_upgrade = False, pd_updatedAt = 1\<rparr>],
        applicationsCol = []\<rparr>"]
  by simp

lemma mark_upgraded_fields:
  "payments (mark_upgraded i p db) = payments db"
  "shares (mark_upgraded i p db) = shares db"
  "applications (mark_upgraded i p db) =
     (if truthy (Some i) then
        (case applications db p of
           Some a \<Rightarrow> (applications db)(p \<mapsto> a(''upgraded'' \<mapsto> JBool True))
         | None \<Rightarrow> applications db)
      else applications db)"
proof -
  show "payments (mark_upgraded i p db) = payments db"
    by (cases "store_get (inherited db) (applications db) p") (simp_all add: mark_upgraded_def)
  show "shares (mark_upgraded i p db) = shares db"
    by (cases "store_get (inherited db) (applications db) p") (simp_all add: mark_upgraded_def)
  show "applications (mark_upgraded i p db) =
     (if truthy (Some i) then
        (case applications db p of
           Some a \<Rightarrow> (applications db)(p \<mapsto> a(''upgraded'' \<mapsto> JBool True))
         | None \<Rightarrow> applications db)
      else applications db)"
  proof (cases "applications db p")
    case (Some a)
    then show ?thesis by (simp add: mark_upgraded_def)
  next
    case None
    then have "\<And>a. store_get (inherited db) (applications db) p \<noteq> Own a"
      by (simp add: store_get_Own_iff)
    with None show ?thesis
      by (cases "store_get (inherited db) (applications db) p") (auto simp: mark_upgraded_def)
  qed
qed

lemma mem_verify_success:
  assumes "reference \<noteq> []" and "payments db reference = Some payment"
    and "provider reference = Some ''success''"
  shows "payments (fst (mem_verify_payment now provider reference db)) =
           (payments db)(reference \<mapsto> payment\<lparr>pay_verified := True, pay_verifiedAt := Some now\<rparr>)"
    and "shares (fst (mem_verify_payment now provider reference db)) = shares db"
    and "truthy (Some (pay_isUpgrade payment)) \<Longrightarrow> applications db (pay_phone payment) = Some a \<Longrightarrow>
         applications (fst (mem_verify_payment now provider reference db)) =
           (applications db)(pay_phone payment \<mapsto> a(''upgraded'' \<mapsto> JBool True))"
    and "\<not> truthy (Some (pay_isUpgrade payment)) \<or> applications db (pay_phone payment) = None \<Longrightarrow>
         applications (fst (mem_verify_payment now provider reference db)) = applications db"
    and "snd (mem_verify_payment now provider reference db) =
           ((200, VerifiedBody (pay_amount payment) (pay_isUpgrade payment)), [reference])"
proof -
  have r: "mem_verify_payment now provider reference db =
     (mark_upgraded (pay_isUpgrade payment) (pay_phone payment)
        (db\<lparr>payments := (payments db)(reference \<mapsto>
               payment\<lparr>pay_verified := True, pay_verifiedAt := Some now\<rparr>)\<rparr>),
      (200, VerifiedBody (pay_amount payment) (pay_isUpgrade payment)), [reference])"
    using assms by (simp add: mem_verify_payment_def Let_def)
  show "payments (fst (mem_verify_payment now provider reference db)) =
           (payments db)(reference \<mapsto> payment\<lparr>pay_verified := True, pay_verifiedAt := Some now\<rparr>)"
    by (simp add: r mark_upgraded_fields)
  show "shares (fst (mem_verify_payment now provider reference db)) = shares db"
    by (simp add: r mark_upgraded_fields)
  show "truthy (Some (pay_isUpgrade payment)) \<Longrightarrow> applications db (pay_phone payment) = Some a \<Longrightarrow>
         applications (fst (mem_verify_payment now provider reference db)) =
           (applications db)(pay_phone payment \<mapsto> a(''upgraded'' \<mapsto> JBool True))"
    by (simp add: r mark_upgraded_fields)
  show "\<not> truthy (Some (pay_isUpgrade payment)) \<or> applications db (pay_phone payment) = None \<Longrightarrow>
         applications (fst (mem_verify_payment now provider reference db)) = applications db"
    by (auto simp: r mark_upgraded_fields)
  show "snd (mem_verify_payment now provider reference db) =
           ((200, VerifiedBody (pay_amount payment) (pay_isUpgrade payment)), [reference])"
    by (simp add: r)
qed

text \<open>
  Claim C4, as amended. The provider reports \<open>success\<close> for a non-empty reference.
  In memory (\<open>GET /api/verify-payment\<close>), when a payment record exists for the reference:
  the record gets \<open>verified = true\<close> and \<open>verifiedAt = now\<close> and nothing else in it changes;
  if its \<open>isUpgrade\<close> is truthy and an application exists for its phone, that application
  gets \<open>upgraded = true\<close>, otherwise the applications are unchanged; the response is
  \<open>{success: true, amount, isUpgrade}\<close>.
  In the persistent variant (\<open>POST /api/verify-payment\<close>), for a non-empty phone and whether
  or not a document exists: the document for (phone, reference) becomes
  \<open>status = success\<close>, \<open>upgrade = !!upgrade\<close> of the request, \<open>updatedAt = now\<close>; shares and
  applications are unchanged; the response is \<open>{success: true}\<close> alone.
\<close>

theorem verify_success_effects:
  assumes "reference \<noteq> []" and "provider reference = Some ''success''"
  shows
  "(payments db reference = Some payment \<longrightarrow>
      payments (fst (mem_verify_payment now provider reference db)) =
        (payments db)(reference \<mapsto> payment\<lparr>pay_verified := True, pay_verifiedAt := Some now\<rparr>) \<and>
      shares (fst (mem_verify_payment now provider reference db)) = shares db \<and>
      (truthy (Some (pay_isUpgrade payment)) \<longrightarrow> applications db (pay_phone payment) = Some a \<longrightarrow>
         applications (fst (mem_verify_payment now provider reference db)) =
           (applications db)(pay_phone payment \<mapsto> a(''upgraded'' \<mapsto> JBool True))) \<and>
      (\<not> truthy (Some (pay_isUpgrade payment)) \<or> applications db (pay_phone payment) = None \<longrightarrow>
         applications (fst (mem_verify_payment now provider reference db)) = applications db) \<and>
      snd (mem_verify_payment now provider reference db) =
        ((200, VerifiedBody (pay_amount payment) (pay_isUpgrade payment)), [reference])) \<and>
   (phone \<noteq> [] \<longrightarrow>
      find (\<lambda>d. pd_phone d = JStr phone \<and> pd_reference d = JStr reference)
        (paymentsCol (fst (mongo_verify_payment now provider reference phone upgrade pdb))) =
      Some \<lparr>pd_phone = JStr phone, pd_reference = JStr reference, pd_status = ''success'',
            pd_upgrade = truthy upgrade, pd_updatedAt = now\<rparr> \<and>
      sharesCol (fst (mongo_verify_payment now provider reference phone upgrade pdb)) = sharesCol pdb \<and>
      applicationsCol (fst (mongo_verify_payment now provider reference phone upgrade pdb)) =
        applicationsCol pdb \<and>
      snd (mongo_verify_payment now provider reference phone upgrade pdb) =
        ((200, SuccessBody), [reference]))"
proof (intro conjI impI)
  assume p: "payments db reference = Some payment"
  note m = mem_verify_success [where provider = provider and reference = reference, OF assms(1) p assms(2)]
  show "payments (fst (mem_verify_payment now provider reference db)) =
        (payments db)(reference \<mapsto> payment\<lparr>pay_verified := True, pay_verifiedAt := Some now\<rparr>)"
    by (rule m(1))
  show "shares (fst (mem_verify_payment now provider reference db)) = shares db"
    by (rule m(2))
  show "snd (mem_verify_payment now provider reference db) =
        ((200, VerifiedBody (pay_amount payment) (pay_isUpgrade payment)), [reference])"
    by (rule m(5))
  {
    assume "truthy (Some (pay_isUpgrade payment))" and "applications db (pay_phone payment) = Some a"
    then show "applications (fst (mem_verify_payment now provider reference db)) =
           (applications db)(pay_phone payment \<mapsto> a(''upgraded'' \<mapsto> JBool True))"
      by (rule m(3))
  }
  {
    assume "\<not> truthy (Some (pay_isUpgrade payment)) \<or> applications db (pay_phone payment) = None"
    then show "applications (fst (mem_verify_payment now provider reference db)) = applications db"
      by (rule m(4))
  }
next
  assume ph: "phone \<noteq> []"
  note g = mongo_verify_success [where provider = provider and reference = reference, OF assms(1) ph assms(2)]
  show "find (\<lambda>d. pd_phone d = JStr phone \<and> pd_reference d = JStr reference)
        (paymentsCol (fst (mongo_verify_payment now provider reference phone upgrade pdb))) =
      Some \<lparr>pd_phone = JStr phone, pd_reference = JStr reference, pd_status = ''success'',
            pd_upgrade = truthy upgrade, pd_updatedAt = now\<rparr>"
    by (rule g(1))
  show "sharesCol (fst (mongo_verify_payment now provider reference phone upgrade pdb)) = sharesCol pdb"
    by (rule g(2))
  show "applicationsCol (fst (mongo_verify_payment now provider reference phone upgrade pdb)) =
        applicationsCol pdb"
    by (rule g(3))
  show "snd (mongo_verify_payment now provider reference phone upgrade pdb) =
        ((200, SuccessBody), [reference])"
    by (rule g(4))
qed

text \<open>
  The theorem at reference \<open>PAY-1\<close>: in memory on a store with an upgrade payment of 5000 and an
  application for phone \<open>0801\<close>, and in the persistent variant on the empty store.
\<close>

theorem verify_success_effects_witness:
  "payments (fst (mem_verify_payment 2 (\<lambda>r. Some ''success'') ''PAY-1''
      \<lparr>shares = Map.empty,
       payments = [''PAY-1'' \<mapsto> \<lparr>pay_phone = ''0801'', pay_amount = 5000, pay_isUpgrade = JBool True,
                     pay_verified = False, pay_createdAt = 1, pay_verifiedAt = None\<rparr>],
       applications = [''0801'' \<mapsto> [''phone'' \<mapsto> JStr ''0801'']],
       inherited = (\<lambda>k. no_extras)\<rparr>)) ''PAY-1'' =
     Some \<lparr>pay_phone = ''0801'', pay_amount = 5000, pay_isUpgrade = JBool True,
           pay_verified = True, pay_createdAt = 1, pay_verifiedAt = Some 2\<rparr> \<and>
   map_option (\<lambda>a. (a ''phone'', a ''upgraded''))
     (applications (fst (mem_verify_payment 2 (\<lambda>r. Some ''success'') ''PAY-1''
      \<lparr>shares = Map.empty,
       payments = [''PAY-1'' \<mapsto> \<lparr>pay_phone = ''0801'', pay_amount = 5000, pay_isUpgrade = JBool True,
                     pay_verified = False, pay_createdAt = 1, pay_verifiedAt = None\<rparr>],
       applications = [''0801'' \<mapsto> [''phone'' \<mapsto> JStr ''0801'']],
       inherited = (\<lambda>k. no_extras)\<rparr>)) ''0801'') =
     Some (Some (JStr ''0801''), Some (JBool True)) \<and>
   snd (mem_verify_payment 2 (\<lambda>r. Some ''success'') ''PAY-1''
      \<lparr>shares = Map.empty,
       payments = [''PAY-1'' \<mapsto> \<lparr>pay_phone = ''0801'', pay_amount = 5000, pay_isUpgrade = JBool True,
                     pay_verified = False, pay_createdAt = 1, pay_verifiedAt = None\<rparr>],
       applications = [''0801'' \<mapsto> [''phone'' \<mapsto> JStr ''0801'']],
       inherited = (\<lambda>k. no_extras)\<rparr>) =
     ((200, VerifiedBody 5000 (JBool True)), [''PAY-1'']) \<and>
   mongo_verify_payment 2 (\<lambda>r. Some ''success'') ''PAY-1'' ''0801'' None mongo_init =
     (\<lparr>sharesCol = [],
       paymentsCol = [\<lparr>pd_phone = JStr ''0801'', pd_reference = JStr ''PAY-1'',
                       pd_status = ''success'', pd_upgrade = False, pd_updatedAt = 2\<rparr>],
       applicationsCol = []\<rparr>, (200, SuccessBody), [''PAY-1''])"
proof -
  have r: "''PAY-1'' \<noteq> []" and p: "(\<lambda>r. Some ''success'') ''PAY-1'' = Some ''success''"
    by simp_all
  have m: "mongo_verify_payment 2 (\<lambda>r. Some ''success'') ''PAY-1'' ''0801'' None mongo_init =
     (\<lparr>sharesCol = [],
       paymentsCol = [\<lparr>pd_phone = JStr ''0801'', pd_reference = JStr ''PAY-1'',
                       pd_status = ''success'', pd_upgrade = False, pd_updatedAt = 2\<rparr>],
       applicationsCol = []\<rparr>, (200, SuccessBody), [''PAY-1''])"
    by (simp add: mongo_verify_payment_def mongo_init_def)
  show ?thesis
    using verify_success_effects [where reference = "''PAY-1''" and provider = "\<lambda>r. Some ''success''"
        and now = 2 and phone = "''0801''" and upgrade = None and pdb = mongo_init
        and a = "[''phone'' \<mapsto> JStr ''0801'']"
        and payment = "\<lparr>pay_phone = ''0801'', pay_amount = 5000, pay_isUpgrade = JBool True,
                     pay_verified = False, pay_createdAt = 1, pay_verifiedAt = None\<rparr>"
        and db = "\<lparr>shares = Map.empty,
           payments = [''PAY-1'' \<mapsto> \<lparr>pay_phone = ''0801'', pay_amount = 5000,
                         pay_isUpgrade = JBool True, pay_verified = False, pay_createdAt = 1,
                         pay_verifiedAt = None\<rparr>],
           applications = [''0801'' \<mapsto> [''phone'' \<mapsto> JStr ''0801'']],
       inherited = (\<lambda>k. no_extras)\<rparr>", OF r p]
    by (simp add: m)
qed

text \<open>
  Claim C4 as stated fails in the persistent variant. Phone \<open>0801\<close> has an application and a
  payment document \<open>PAY-1\<close> with \<open>upgrade = true\<close>; a verification that the provider confirms
  answers \<open>{success: true}\<close> with no amount and no upgrade flag, leaves the application
  without \<open>upgraded\<close>, and overwrites the document's \<open>upgrade\<close> with the request's (absent,
  so \<open>false\<close>).
\<close>

theorem verify_success_counterexample:
  "map (\<lambda>d. (pd_phone d, pd_reference d, pd_status d, pd_upgrade d))
     (paymentsCol (fst (mongo_verify_payment 2 (\<lambda>r. Some ''success'') ''PAY-1'' ''0801''
        (Some (JBool True)) (fst (mongo_application 1 ''0801'' Map.empty mongo_init))))) =
     [(JStr ''0801'', JStr ''PAY-1'', ''success'', True)] \<and>
   snd (mongo_verify_payment 3 (\<lambda>r. Some ''success'') ''PAY-1'' ''0801'' None
     (fst (mongo_verify_payment 2 (\<lambda>r. Some ''success'') ''PAY-1'' ''0801''
        (Some (JBool True)) (fst (mongo_application 1 ''0801'' Map.empty mongo_init))))) =
     ((200, SuccessBody), [''PAY-1'']) \<and>
   map (\<lambda>a. (a ''phone'', a ''upgraded''))
     (applicationsCol (fst (mongo_verify_payment 3 (\<lambda>r. Some ''success'') ''PAY-1'' ''0801'' None
       (fst (mongo_verify_payment 2 (\<lambda>r. Some ''success'') ''PAY-1'' ''0801''
          (Some (JBool True)) (fst (mongo_application 1 ''0801'' Map.empty mongo_init))))))) =
     [(Some (JStr ''0801''), None)] \<and>
   map (\<lambda>d. (pd_phone d, pd_reference d, pd_status d, pd_upgrade d))
     (paymentsCol (fst (mongo_verify_payment 3 (\<lambda>r. Some ''success'') ''PAY-1'' ''0801'' None
       (fst (mongo_verify_payment 2 (\<lambda>r. Some ''success'') ''PAY-1'' ''0801''
          (Some (JBool True)) (fst (mongo_application 1 ''0801'' Map.empty mongo_init))))))) =
     [(JStr ''0801'', JStr ''PAY-1'', ''success'', False)]"
  by (simp add: mongo_verify_payment_def mongo_application_def mongo_init_def)

section \<open>Payment verification when the provider does not confirm, and for unknown references\<close>

text \<open>
  Claim C6, as amended. The provider reports a status other than \<open>success\<close> for a non-empty
  reference. In memory, when a payment record exists for the reference, the handler leaves
  the whole store as it was and answers \<open>{success: false, message}\<close>. The persistent handler,
  for a non-empty phone, leaves the whole store as it was too, and answers 400 with
  \<open>{error: 'Payment not successful'}\<close>.
\<close>

theorem verify_not_successful_frame:
  assumes "reference \<noteq> []" and "provider reference = Some status" and "status \<noteq> ''success''"
  shows
  "(payments db reference = Some payment \<longrightarrow>
      mem_verify_payment now provider reference db =
        (db, (200, NotCompletedBody ''Payment not completed''), [reference])) \<and>
   (phone \<noteq> [] \<longrightarrow>
      mongo_verify_payment now provider reference phone upgrade pdb =
        (pdb, (400, ErrorBody ''Payment not successful''), [reference]))"
  using assms by (simp add: mem_verify_payment_def mongo_verify_payment_def Let_def)

text \<open>
  The theorem at reference \<open>PAY-1\<close> and provider status \<open>abandoned\<close>: in memory on a store holding
  that payment, in the persistent variant on the empty store.
\<close>

theorem verify_not_successful_frame_witness:
  "mem_verify_payment 2 (\<lambda>r. Some ''abandoned'') ''PAY-1''
      \<lparr>shares = Map.empty,
       payments = [''PAY-1'' \<mapsto> \<lparr>pay_phone = ''0801'', pay_amount = 5000, pay_isUpgrade = JBool True,
                     pay_verified = False, pay_createdAt = 1, pay_verifiedAt = None\<rparr>],
       applications = Map.empty, inherited = (\<lambda>k. no_extras)\<rparr> =
     (\<lparr>shares = Map.empty,
       payments = [''PAY-1'' \<mapsto> \<lparr>pay_phone = ''0801'', pay_amount = 5000, pay_isUpgrade = JBool True,
                     pay_verified = False, pay_createdAt = 1, pay_verifiedAt = None\<rparr>],
       applications = Map.empty, inherited = (\<lambda>k. no_extras)\<rparr>,
      (200, NotCompletedBody ''Payment not completed''), [''PAY-1'']) \<and>
   mongo_verify_payment 2 (\<lambda>r. Some ''abandoned'') ''PAY-1'' ''0801'' None mongo_init =
     (mongo_init, (400, ErrorBody ''Payment not successful''), [''PAY-1''])"
proof -
  have r: "''PAY-1'' \<noteq> []" and p: "(\<lambda>r. Some ''abandoned'') ''PAY-1'' = Some ''abandoned''"
    and s: "''abandoned'' \<noteq> ''success''"
    by simp_all
  show ?thesis
    using verify_not_successful_frame [where reference = "''PAY-1''"
        and provider = "\<lambda>r. Some ''abandoned''" and status = "''abandoned''"
        and now = 2 and phone = "''0801''" and upgrade = None and pdb = mongo_init
        and payment = "\<lparr>pay_phone = ''0801'', pay_amount = 5000, pay_isUpgrade = JBool True,
                     pay_verified = False, pay_createdAt = 1, pay_verifiedAt = None\<rparr>"
        and db = "\<lparr>shares = Map.empty,
           payments = [''PAY-1'' \<mapsto> \<lparr>pay_phone = ''0801'', pay_amount = 5000,
                         pay_isUpgrade = JBool True, pay_verified = False, pay_createdAt = 1,
                         pay_verifiedAt = None\<rparr>],
           applications = Map.empty, inherited = (\<lambda>k. no_extras)\<rparr>", OF r p s]
    by simp
qed

text \<open>
  Claim C6 as stated fails in the persistent variant: with a payment document for
  (\<open>0801\<close>, \<open>PAY-1\<close>) stored and the provider reporting \<open>abandoned\<close>, the answer is the error
  response 400 and not \<open>success = false\<close>.
\<close>

theorem verify_not_successful_counterexample:
  "map (\<lambda>d. (pd_phone d, pd_reference d, pd_status d))
     (paymentsCol (fst (mongo_verify_payment 2 (\<lambda>r. Some ''success'') ''PAY-1'' ''0801'' None
        mongo_init))) = [(JStr ''0801'', JStr ''PAY-1'', ''success'')] \<and>
   snd (mongo_verify_payment 3 (\<lambda>r. Some ''abandoned'') ''PAY-1'' ''0801'' None
     (fst (mongo_verify_payment 2 (\<lambda>r. Some ''success'') ''PAY-1'' ''0801'' None mongo_init))) =
   ((400, ErrorBody ''Payment not successful''), [''PAY-1''])"
  by (simp add: mongo_verify_payment_def mongo_init_def)

lemma updateOne_absent: "find P ds = None \<Longrightarrow> updateOne P f ins ds = ds @ [ins]"
  by (induction ds) (auto split: if_splits)

text \<open>
  Claim C7, as amended. In memory, a non-empty reference that has no payment record and
  is not the name of a member of \<open>Object.prototype\<close> (a standard one, or \<open>verified\<close>,
  \<open>upgraded\<close> or \<open>verifiedAt\<close>, which requests can add to it) is answered 404, the store is
  unchanged and the provider is not asked. The persistent handler has no such check: for
  a non-empty reference and phone it always asks the provider about the reference and
  never answers 404, and when the provider reports \<open>success\<close> and no document exists for
  (phone, reference) it inserts one.
\<close>

theorem verify_unknown_reference:
  assumes "reference \<noteq> []"
  shows
  "(payments db reference = None \<longrightarrow> \<not> List.member standard_members reference \<longrightarrow>
    reference \<noteq> ''verified'' \<longrightarrow> reference \<noteq> ''upgraded'' \<longrightarrow> reference \<noteq> ''verifiedAt'' \<longrightarrow>
      mem_verify_payment now provider reference db =
        (db, (404, ErrorBody ''Payment not found''), [])) \<and>
   (phone \<noteq> [] \<longrightarrow>
      snd (snd (mongo_verify_payment now provider reference phone upgrade pdb)) = [reference] \<and>
      fst (fst (snd (mongo_verify_payment now provider reference phone upgrade pdb))) \<noteq> 404) \<and>
   (phone \<noteq> [] \<longrightarrow> provider reference = Some ''success'' \<longrightarrow>
    find (\<lambda>d. pd_phone d = JStr phone \<and> pd_reference d = JStr reference) (paymentsCol pdb) = None \<longrightarrow>
      mongo_verify_payment now provider reference phone upgrade pdb =
        (pdb\<lparr>paymentsCol := paymentsCol pdb @
                [\<lparr>pd_phone = JStr phone, pd_reference = JStr reference, pd_status = ''success'',
                  pd_upgrade = truthy upgrade, pd_updatedAt = now\<rparr>]\<rparr>,
         (200, SuccessBody), [reference]))"
proof (intro conjI impI)
  assume "payments db reference = None" and "\<not> List.member standard_members reference"
    and "reference \<noteq> ''verified''" and "reference \<noteq> ''upgraded''" and "reference \<noteq> ''verifiedAt''"
  then have "\<not> truthy_looked (store_get (inherited db) (payments db) reference)"
    by (intro store_get_plain)
  with assms show "mem_verify_payment now provider reference db =
        (db, (404, ErrorBody ''Payment not found''), [])"
    by (simp add: mem_verify_payment_def Let_def)
next
  assume "phone \<noteq> []"
  with assms show "snd (snd (mongo_verify_payment now provider reference phone upgrade pdb)) = [reference]"
    by (simp add: mongo_verify_payment_def split: option.splits)
next
  assume "phone \<noteq> []"
  with assms show "fst (fst (snd (mongo_verify_payment now provider reference phone upgrade pdb))) \<noteq> 404"
    by (simp add: mongo_verify_payment_def split: option.splits)
next
  assume "phone \<noteq> []" and "provider reference = Some ''success''"
    and "find (\<lambda>d. pd_phone d = JStr phone \<and> pd_reference d = JStr reference) (paymentsCol pdb) = None"
  with assms show "mongo_verify_payment now provider reference phone upgrade pdb =
        (pdb\<lparr>paymentsCol := paymentsCol pdb @
                [\<lparr>pd_phone = JStr phone, pd_reference = JStr reference, pd_status = ''success'',
                  pd_upgrade = truthy upgrade, pd_updatedAt = now\<rparr>]\<rparr>,
         (200, SuccessBody), [reference])"
    by (simp add: mongo_verify_payment_def updateOne_absent)
qed

text \<open>
  The theorem at the unknown reference \<open>PAY-404\<close>, on the empty stores.
\<close>

theorem verify_unknown_reference_witness:
  "mem_verify_payment 2 (\<lambda>r. Some ''success'') ''PAY-404'' mem_init =
     (mem_init, (404, ErrorBody ''Payment not found''), []) \<and>
   mongo_verify_payment 2 (\<lambda>r. Some ''success'') ''PAY-404'' ''0801'' None mongo_init =
     (\<lparr>sharesCol = [],
       paymentsCol = [\<lparr>pd_phone = JStr ''0801'', pd_reference = JStr ''PAY-404'',
                       pd_status = ''success'', pd_upgrade = False, pd_updatedAt = 2\<rparr>],
       applicationsCol = []\<rparr>, (200, SuccessBody), [''PAY-404''])"
proof -
  have r: "''PAY-404'' \<noteq> []" by simp
  show ?thesis
    using verify_unknown_reference [where reference = "''PAY-404''"
        and provider = "\<lambda>r. Some ''success''" and now = 2 and phone = "''0801''"
        and upgrade = None and pdb = mongo_init and db = mem_init, OF r]
    by (simp add: mem_init_def mongo_init_def standard_members_def)
qed

text \<open>
  Claim C7 as stated fails in the persistent variant: on the empty store, reference
  \<open>PAY-404\<close> has no document, yet the handler asks the provider, answers 200 and stores a
  new document.
\<close>

theorem verify_unknown_reference_counterexample:
  "find (\<lambda>d. pd_phone d = JStr ''0801'' \<and> pd_reference d = JStr ''PAY-404'')
     (paymentsCol mongo_init) = None \<and>
   mongo_verify_payment 2 (\<lambda>r. Some ''success'') ''PAY-404'' ''0801'' None mongo_init =
     (\<lparr>sharesCol = [],
       paymentsCol = [\<lparr>pd_phone = JStr ''0801'', pd_reference = JStr ''PAY-404'',
                       pd_status = ''success'', pd_upgrade = False, pd_updatedAt = 2\<rparr>],
       applicationsCol = []\<rparr>, (200, SuccessBody), [''PAY-404''])"
  by (simp add: mongo_verify_payment_def mongo_init_def)

section \<open>The webhook's acknowledgement\<close>

lemma webhook_no_event:
  "webhook_event parse_joined b = None \<Longrightarrow>
   mongo_paystack_webhook now conv parse_joined b db = Replied db (400, TextBody ''Invalid payload'')"
  by (simp add: mongo_paystack_webhook_def)

lemma webhook_parsed_body:
  "mongo_paystack_webhook now conv parse_joined (ObjectBody kvs) db =
     Replied db (400, TextBody ''Invalid payload'')"
  "mongo_paystack_webhook now conv parse_joined NoBody db =
     Replied db (400, TextBody ''Invalid payload'')"
  by (simp_all add: webhook_no_event webhook_event_def)

text \<open>
  Claim C5 at a failing input. Paystack posts a \<open>charge.success\<close> event as a JSON object.
  \<open>express.json()\<close> has parsed it before the route runs, so \<open>req.body.toString()\<close> is
  \<open>[object Object]\<close>, \<open>JSON.parse\<close> throws, and the handler answers 400 \<open>Invalid payload\<close>
  and stores nothing, as it does for every object body and for every request without a
  parsed body. The claim asks for 200.
\<close>

theorem webhook_rejects_parsed_body:
  "mongo_paystack_webhook 5 (\<lambda>v. None) (\<lambda>xs. None)
     (ObjectBody [(''event'', JStr ''charge.success''),
                  (''data'', JObj [(''reference'', JStr ''PAY-1''), (''amount'', JNum 200000),
                                   (''metadata'', JObj [(''phone'', JStr ''0801'')])])])
     mongo_init = Replied mongo_init (400, TextBody ''Invalid payload'')"
  by (simp add: mongo_paystack_webhook_def webhook_event_def)

text \<open>
  What the handler does once a body does parse, which over HTTP takes an array whose text
  is JSON: an event of another type is acknowledged with 200 and the store is unchanged; a
  \<open>charge.success\<close> event with a phone is stored; \<open>null\<close>, and a \<open>charge.success\<close> event without
  \<open>data\<close>, make the handler throw after the \<open>try\<close>.
\<close>

lemma js_get_defined: "v \<noteq> JNull \<Longrightarrow> \<exists>r. js_get (Some v) k = Inr r"
  by (cases v) auto

lemma webhook_not_charge:
  assumes "webhook_event parse_joined b = Some event" and "event \<noteq> JNull"
    and "js_get (Some event) ''event'' \<noteq> Inr (Some (JStr ''charge.success''))"
  shows "mongo_paystack_webhook now conv parse_joined b db = Replied db (200, TextBody ''OK'')"
proof -
  from js_get_defined [OF assms(2)] obtain r where r: "js_get (Some event) ''event'' = Inr r"
    by blast
  with assms(3) have "r \<noteq> Some (JStr ''charge.success'')" by auto
  with r assms(1) show ?thesis by (simp add: mongo_paystack_webhook_def)
qed

lemma webhook_wrapped_event:
  "mongo_paystack_webhook 5 (\<lambda>v. None)
     (\<lambda>xs. Some (JObj [(''event'', JStr ''charge.success''),
                  (''data'', JObj [(''reference'', JStr ''PAY-1''), (''amount'', JNum 200000),
                                   (''metadata'', JObj [(''phone'', JStr ''0801'')])])]))
     (ArrayBody [JStr ''the text of that event'']) mongo_init =
   Replied \<lparr>sharesCol = [],
       paymentsCol = [\<lparr>pd_phone = JStr ''0801'', pd_reference = JStr ''PAY-1'',
                       pd_status = ''success'', pd_upgrade = True, pd_updatedAt = 5\<rparr>],
       applicationsCol = []\<rparr> (200, TextBody ''OK'')"
  by (simp add: mongo_paystack_webhook_def webhook_event_def webhook_phone_def stored_def
        mongo_init_def)

lemma webhook_throws:
  "webhook_event parse_joined b = Some JNull \<Longrightarrow>
   mongo_paystack_webhook now conv parse_joined b db = Threw db"
  "webhook_event parse_joined b = Some (JObj [(''event'', JStr ''charge.success'')]) \<Longrightarrow>
   mongo_paystack_webhook now conv parse_joined b db = Threw db"
  by (simp_all add: mongo_paystack_webhook_def webhook_phone_def)

section \<open>The submission gate, the eligibility answer and resubmission\<close>

text \<open>
  In memory, \<open>POST /api/application\<close> with a phone in the body answers 403 and stores nothing
  unless the store holds a share record of that phone with at least 10 and 2; otherwise it
  stores the body.
\<close>

lemma access_only_own:
  "canAccessForm st \<Longrightarrow> verifyWhatsAppShares db body_phone query_phone = Inr st \<Longrightarrow>
   \<exists>r. mem_userShares db (if body_phone \<noteq> [] then body_phone else query_phone) = Own r \<and>
       10 \<le> friends r \<and> 2 \<le> groups r"
  by (cases "mem_userShares db (if body_phone \<noteq> [] then body_phone else query_phone)")
     (auto simp: verifyWhatsAppShares_def Let_def split: if_splits)

lemma mem_application_gate:
  assumes "body_phone \<noteq> []"
  shows "\<not> (\<exists>r. shares db body_phone = Some r \<and> 10 \<le> friends r \<and> 2 \<le> groups r) \<Longrightarrow>
         mem_application body_phone query_phone form db =
           (db, (403, ErrorBody ''Complete WhatsApp sharing requirements first''))"
    and "shares db body_phone = Some r \<Longrightarrow> 10 \<le> friends r \<Longrightarrow> 2 \<le> groups r \<Longrightarrow>
         mem_application body_phone query_phone form db =
           (db\<lparr>applications := (applications db)(body_phone \<mapsto> form(''phone'' \<mapsto> JStr body_phone))\<rparr>,
            (200, SuccessBody))"
proof -
  obtain st where st: "verifyWhatsAppShares db body_phone query_phone = Inr st"
    using assms by (simp add: verifyWhatsAppShares_def Let_def)
  show "\<not> (\<exists>r. shares db body_phone = Some r \<and> 10 \<le> friends r \<and> 2 \<le> groups r) \<Longrightarrow>
         mem_application body_phone query_phone form db =
           (db, (403, ErrorBody ''Complete WhatsApp sharing requirements first''))"
  proof -
    assume no: "\<not> (\<exists>r. shares db body_phone = Some r \<and> 10 \<le> friends r \<and> 2 \<le> groups r)"
    have "\<not> canAccessForm st"
    proof
      assume "canAccessForm st"
      from access_only_own [OF this st] assms obtain r
        where "mem_userShares db body_phone = Own r" and "10 \<le> friends r" and "2 \<le> groups r"
        by auto
      with no show False by (auto simp: mem_userShares_Own)
    qed
    with st show ?thesis by (simp add: mem_application_def)
  qed
  show "shares db body_phone = Some r \<Longrightarrow> 10 \<le> friends r \<Longrightarrow> 2 \<le> groups r \<Longrightarrow>
         mem_application body_phone query_phone form db =
           (db\<lparr>applications := (applications db)(body_phone \<mapsto> form(''phone'' \<mapsto> JStr body_phone))\<rparr>,
            (200, SuccessBody))"
    using assms
    by (simp add: mem_application_def verifyWhatsAppShares_def Let_def mem_userShares_shares)
qed

lemma mem_application_changes_only_when_eligible:
  assumes "applications (fst (mem_application body_phone query_phone form db)) \<noteq> applications db"
  shows "body_phone \<noteq> [] \<and>
         (\<exists>r. shares db body_phone = Some r \<and> 10 \<le> friends r \<and> 2 \<le> groups r)"
proof -
  from assms have b: "body_phone \<noteq> []"
    by (auto simp: mem_application_def split: sum.splits if_splits)
  from assms mem_application_gate(1) [OF b, of db query_phone form] b show ?thesis
    by auto
qed

text \<open>
  Claim C1 at a failing input. In the persistent variant, on the empty store, phone
  \<open>+2341\<close> has no shares, so \<open>GET /api/eligibility\<close> reports \<open>canAccessForm = false\<close>; yet
  \<open>POST /api/application\<close> for that phone answers \<open>{success: true}\<close> and stores the
  application. The claim asks for 403 and no record.
\<close>

theorem submit_without_shares_accepted:
  "mongo_eligibility ''+2341'' mongo_init = (mongo_init, (200, EligibilityBody False False)) \<and>
   snd (mongo_application 1 ''+2341'' [''name'' \<mapsto> JStr ''A''] mongo_init) = (200, SuccessBody) \<and>
   map (\<lambda>d. (d ''phone'', d ''name'', d ''updatedAt''))
     (applicationsCol (fst (mongo_application 1 ''+2341'' [''name'' \<mapsto> JStr ''A''] mongo_init))) =
     [(Some (JStr ''+2341''), Some (JStr ''A''), Some (JNum 1))]"
  by (simp add: mongo_eligibility_def mongo_application_def mongo_init_def or0_def)

text \<open>
  The persistent handler accepts every submission that names a phone.
\<close>

lemma mongo_application_accepts:
  "phone \<noteq> [] \<Longrightarrow> snd (mongo_application now phone formData db) = (200, SuccessBody)"
  by (simp add: mongo_application_def)

text \<open>
  The persistent \<open>GET /api/eligibility\<close> does what claim C2 says and returns the store as it
  was; the in-memory one returns the store as it was too and does so for \<open>canAccessForm\<close>,
  and reads \<open>paid\<close> from what \<open>db.payments\<close> holds under the phone as if it were a reference.
\<close>

lemma mongo_eligibility_spec:
  assumes "phone \<noteq> []"
  shows "mongo_eligibility phone db =
     (db, (200, EligibilityBody
        (10 \<le> fst (mongo_findShares db phone) \<and> 2 \<le> snd (mongo_findShares db phone))
        (\<exists>d \<in> set (paymentsCol db). pd_phone d = JStr phone \<and> pd_status d = ''success'')))"
proof -
  have "(find (\<lambda>d. pd_phone d = JStr phone \<and> pd_status d = ''success'') (paymentsCol db) \<noteq> None) =
        (\<exists>d \<in> set (paymentsCol db). pd_phone d = JStr phone \<and> pd_status d = ''success'')"
    by (auto simp: find_None_iff)
  then show ?thesis
    using assms
    by (simp add: mongo_eligibility_def mongo_findShares_def or0_def Let_def split: option.splits)
qed

lemma mem_eligibility_spec:
  assumes "phone \<noteq> []" and "mem_userShares db phone = Own r"
  shows "mem_eligibility [] (Some phone) db =
     (db, (200, EligibilitySharesBody (10 \<le> friends r \<and> 2 \<le> groups r)
        (verified_of (inherited db) (store_get (inherited db) (payments db) phone))
        (friends r) (groups r)))"
  using assms by (simp add: mem_eligibility_def verifyWhatsAppShares_def Let_def)

lemma mem_eligibility_pure: "fst (mem_eligibility body_phone query db) = db"
  by (simp add: mem_eligibility_def Let_def split: sum.splits)

text \<open>
  Claim C2 at a failing input. In memory, phone \<open>0801\<close> initiates a payment, which gets
  reference \<open>PAY-u1\<close>, and the provider confirms it: the stored payment of that phone is
  verified. \<open>GET /api/eligibility\<close> for \<open>0801\<close> still answers \<open>paid = false\<close>, where the claim
  asks for \<open>paid = true\<close>.
\<close>

theorem eligibility_paid_not_reported:
  "payments (fst (mem_verify_payment 2 (\<lambda>r. Some ''success'') ''PAY-u1''
      (fst (mem_init_payment 1 ''u1'' (InitReply ''https://checkout'' ''code'') ''0801'' 5000
         ''a@b.c'' None mem_init)))) ''PAY-u1'' =
     Some \<lparr>pay_phone = ''0801'', pay_amount = 5000, pay_isUpgrade = JBool False,
           pay_verified = True, pay_createdAt = 1, pay_verifiedAt = Some 2\<rparr> \<and>
   snd (mem_eligibility [] (Some ''0801'')
     (fst (mem_verify_payment 2 (\<lambda>r. Some ''success'') ''PAY-u1''
        (fst (mem_init_payment 1 ''u1'' (InitReply ''https://checkout'' ''code'') ''0801'' 5000
           ''a@b.c'' None mem_init))))) =
     (200, EligibilitySharesBody False False 0 0)"
  by (simp add: mem_eligibility_def verifyWhatsAppShares_def mem_userShares_def
        mem_verify_payment_def mem_init_payment_def mem_init_def mark_upgraded_def Let_def
        store_get_def standard_members_def)

text \<open>
  The persistent \<open>POST /api/application\<close> merges the form into the stored document, so a
  field that the form does not name, \<open>upgraded\<close> among them, keeps its value.
\<close>

lemma mongo_application_keeps_other_fields:
  assumes "phone \<noteq> []"
    and "find (\<lambda>d. d ''phone'' = Some (JStr phone)) (applicationsCol db) = Some d"
  shows "find (\<lambda>d. d ''phone'' = Some (JStr phone))
           (applicationsCol (fst (mongo_application now phone formData db))) =
         Some (d ++ formData ++ [''phone'' \<mapsto> JStr phone, ''updatedAt'' \<mapsto> JNum (int now)])"
  using assms
  by (simp add: mongo_application_def Let_def find_updateOne_same)

lemma mongo_application_keeps_upgraded:
  assumes "phone \<noteq> []"
    and "find (\<lambda>d. d ''phone'' = Some (JStr phone)) (applicationsCol db) = Some d"
    and "formData ''upgraded'' = None"
  shows "\<exists>d'. find (\<lambda>d. d ''phone'' = Some (JStr phone))
           (applicationsCol (fst (mongo_application now phone formData db))) = Some d' \<and>
         d' ''upgraded'' = d ''upgraded''"
  using assms(3) mongo_application_keeps_other_fields [OF assms(1,2), of now formData]
  by (simp add: map_add_def)

text \<open>
  Claim C9 at a failing input. In memory, phone \<open>0801\<close> has met the share quota, submits
  name \<open>A\<close>, pays an upgrade that the provider confirms, and so has \<open>upgraded = true\<close>. A
  second submission with name \<open>B\<close> succeeds and stores name \<open>B\<close> with no \<open>upgraded\<close> field,
  where the claim asks for \<open>upgraded\<close> to stay \<open>true\<close>.
\<close>

theorem resubmission_drops_upgraded:
  "map_option (\<lambda>a. (a ''name'', a ''upgraded''))
     (applications
        (fst (mem_verify_payment 3 (\<lambda>r. Some ''success'') ''PAY-u1''
          (fst (mem_init_payment 2 ''u1'' (InitReply ''https://checkout'' ''code'') ''0801'' 5000
                 ''a@b.c'' (Some (JBool True))
            (fst (mem_application ''0801'' [] [''name'' \<mapsto> JStr ''A'']
              \<lparr>shares = [''0801'' \<mapsto> \<lparr>friends = 10, groups = 2\<rparr>], payments = Map.empty,
               applications = Map.empty, inherited = (\<lambda>k. no_extras)\<rparr>)))))) ''0801'') =
     Some (Some (JStr ''A''), Some (JBool True)) \<and>
   snd (mem_application ''0801'' [] [''name'' \<mapsto> JStr ''B'']
        (fst (mem_verify_payment 3 (\<lambda>r. Some ''success'') ''PAY-u1''
          (fst (mem_init_payment 2 ''u1'' (InitReply ''https://checkout'' ''code'') ''0801'' 5000
                 ''a@b.c'' (Some (JBool True))
            (fst (mem_application ''0801'' [] [''name'' \<mapsto> JStr ''A'']
              \<lparr>shares = [''0801'' \<mapsto> \<lparr>friends = 10, groups = 2\<rparr>], payments = Map.empty,
               applications = Map.empty, inherited = (\<lambda>k. no_extras)\<rparr>))))))) = (200, SuccessBody) \<and>
   map_option (\<lambda>a. (a ''name'', a ''upgraded''))
     (applications
       (fst (mem_application ''0801'' [] [''name'' \<mapsto> JStr ''B'']
        (fst (mem_verify_payment 3 (\<lambda>r. Some ''success'') ''PAY-u1''
          (fst (mem_init_payment 2 ''u1'' (InitReply ''https://checkout'' ''code'') ''0801'' 5000
                 ''a@b.c'' (Some (JBool True))
            (fst (mem_application ''0801'' [] [''name'' \<mapsto> JStr ''A'']
              \<lparr>shares = [''0801'' \<mapsto> \<lparr>friends = 10, groups = 2\<rparr>], payments = Map.empty,
               applications = Map.empty, inherited = (\<lambda>k. no_extras)\<rparr>)))))))) ''0801'') =
     Some (Some (JStr ''B''), None)"
  by (simp add: mem_application_def verifyWhatsAppShares_def mem_userShares_def
        mem_verify_payment_def mem_init_payment_def mark_upgraded_def Let_def)

text \<open>
  In the persistent variant a form that itself carries an \<open>upgraded\<close> field overwrites the
  stored one.
\<close>

lemma mongo_application_form_overrides_upgraded:
  "map (\<lambda>d. (d ''phone'', d ''upgraded''))
     (applicationsCol (fst (mongo_application 2 ''0801'' [''upgraded'' \<mapsto> JBool False]
        \<lparr>sharesCol = [], paymentsCol = [],
         applicationsCol = [[''phone'' \<mapsto> JStr ''0801'', ''upgraded'' \<mapsto> JBool True]]\<rparr>))) =
     [(Some (JStr ''0801''), Some (JBool False))]"
  by (simp add: mongo_application_def)

end
